theory Spec2Isabelle
  imports Complex_Main "HOL-Library.AList"
begin

section \<open>Python values\<close>

text \<open>
  A Python \<^verbatim>\<open>str\<close> is a sequence of Unicode code points, so it is modelled as a list of
  natural numbers. ASCII literals of the source are written with \<open>asc\<close>; the Japanese and
  Korean literals are written as their code points.
\<close>

type_synonym ustring = "nat list"

definition asc :: "string \<Rightarrow> ustring" where
  "asc s = map of_char s"

text \<open>The characters on which \<^verbatim>\<open>str.isspace\<close> holds; \<^verbatim>\<open>str.strip()\<close> removes them at both ends.\<close>

definition is_space :: "nat \<Rightarrow> bool" where
  "is_space c \<longleftrightarrow>
     (9 \<le> c \<and> c \<le> 13) \<or> (28 \<le> c \<and> c \<le> 32) \<or> c = 133 \<or> c = 160 \<or> c = 5760
     \<or> (8192 \<le> c \<and> c \<le> 8202) \<or> c = 8232 \<or> c = 8233 \<or> c = 8239 \<or> c = 8287 \<or> c = 12288"

definition strip :: "ustring \<Rightarrow> ustring" where
  "strip s = rev (dropWhile is_space (rev (dropWhile is_space s)))"

text \<open>\<^verbatim>\<open>s.replace(c, "")\<close> for a one-character \<open>c\<close>: every occurrence of \<open>c\<close> is removed.\<close>

definition remove_char :: "nat \<Rightarrow> ustring \<Rightarrow> ustring" where
  "remove_char c s = filter (\<lambda>x. x \<noteq> c) s"

text \<open>
  A Python \<^verbatim>\<open>dict\<close> with string keys is an association list in insertion order without
  repeated keys: \<^verbatim>\<open>d.get(k)\<close> is \<open>map_of d k\<close>, and \<^verbatim>\<open>d[k] = v\<close> is \<open>AList.update k v d\<close>
  (overwrite in place, or append a new key). The key \<^verbatim>\<open>None\<close> is in none of the
  dictionaries of the program, so \<^verbatim>\<open>d.get(None)\<close> is \<^verbatim>\<open>None\<close>.
\<close>

type_synonym pydict = "(ustring \<times> ustring) list"

definition dict_get :: "pydict \<Rightarrow> ustring option \<Rightarrow> ustring option" where
  "dict_get d k = (case k of None \<Rightarrow> None | Some k' \<Rightarrow> map_of d k')"

section \<open>The sign-name dictionaries of \<^verbatim>\<open>parse_zodiac\<close>\<close>

definition BASE_URL :: ustring where
  "BASE_URL = asc ''https://www.tv-asahi.co.jp/yajiplus/uranai/''"

text \<open>Korean sign names (the values of \<^verbatim>\<open>zodiak_eng\<close>, the keys of \<^verbatim>\<open>zodiak_kr_jp\<close>).\<close>

definition kr_aries :: ustring where "kr_aries = [50577, 51088, 47532]"
definition kr_taurus :: ustring where "kr_taurus = [54889, 49548, 51088, 47532]"
definition kr_gemini :: ustring where "kr_gemini = [49933, 46181, 51060, 51088, 47532]"
definition kr_cancer :: ustring where "kr_cancer = [44172, 51088, 47532]"
definition kr_leo :: ustring where "kr_leo = [49324, 51088, 51088, 47532]"
definition kr_virgo :: ustring where "kr_virgo = [52376, 45376, 51088, 47532]"
definition kr_libra :: ustring where "kr_libra = [52380, 52845, 51088, 47532]"
definition kr_scorpio :: ustring where "kr_scorpio = [51204, 44040, 51088, 47532]"
definition kr_sagittarius :: ustring where "kr_sagittarius = [44417, 49688, 51088, 47532]"
definition kr_capricorn :: ustring where "kr_capricorn = [50684, 49548, 51088, 47532]"
definition kr_aquarius :: ustring where "kr_aquarius = [47932, 48337, 51088, 47532]"
definition kr_pisces :: ustring where "kr_pisces = [47932, 44256, 44592, 51088, 47532]"

text \<open>Japanese sign names (the values of \<^verbatim>\<open>zodiak_kr_jp\<close>): ohitsuji-za, oushi-za, ...\<close>

definition jp_aries :: ustring where "jp_aries = [12362, 12402, 12388, 12376, 24231]"
definition jp_taurus :: ustring where "jp_taurus = [12362, 12358, 12375, 24231]"
definition jp_gemini :: ustring where "jp_gemini = [12405, 12383, 12372, 24231]"
definition jp_cancer :: ustring where "jp_cancer = [12363, 12395, 24231]"
definition jp_leo :: ustring where "jp_leo = [12375, 12375, 24231]"
definition jp_virgo :: ustring where "jp_virgo = [12362, 12392, 12417, 24231]"
definition jp_libra :: ustring where "jp_libra = [12390, 12435, 12403, 12435, 24231]"
definition jp_scorpio :: ustring where "jp_scorpio = [12373, 12381, 12426, 24231]"
definition jp_sagittarius :: ustring where "jp_sagittarius = [12356, 12390, 24231]"
definition jp_capricorn :: ustring where "jp_capricorn = [12420, 12366, 24231]"
definition jp_aquarius :: ustring where "jp_aquarius = [12415, 12378, 12364, 12417, 24231]"
definition jp_pisces :: ustring where "jp_pisces = [12358, 12362, 24231]"

definition zodiak_kr_jp :: pydict where
  "zodiak_kr_jp =
     [(kr_aries, jp_aries), (kr_taurus, jp_taurus), (kr_gemini, jp_gemini),
      (kr_cancer, jp_cancer), (kr_leo, jp_leo), (kr_virgo, jp_virgo),
      (kr_libra, jp_libra), (kr_scorpio, jp_scorpio), (kr_sagittarius, jp_sagittarius),
      (kr_capricorn, jp_capricorn), (kr_aquarius, jp_aquarius), (kr_pisces, jp_pisces)]"

text \<open>\<^verbatim>\<open>{v: k for k, v in zodiak_kr_jp.items()}\<close>: the items are inserted in order, a later
  item overwriting an earlier one with the same key.\<close>

definition jp_to_kr :: pydict where
  "jp_to_kr = foldl (\<lambda>d (k, v). AList.update v k d) [] zodiak_kr_jp"

definition zodiak_eng :: pydict where
  "zodiak_eng =
     [(asc ''ohitsuji'', kr_aries), (asc ''ousi'', kr_taurus), (asc ''futago'', kr_gemini),
      (asc ''kani'', kr_cancer), (asc ''sisi'', kr_leo), (asc ''otome'', kr_virgo),
      (asc ''tenbin'', kr_libra), (asc ''sasori'', kr_scorpio), (asc ''ite'', kr_sagittarius),
      (asc ''yagi'', kr_capricorn), (asc ''mizugame'', kr_aquarius), (asc ''uo'', kr_pisces)]"

section \<open>The parsed document\<close>

text \<open>
  \<^verbatim>\<open>BeautifulSoup(html, "html.parser")\<close> turns the markup into a tree; the functions of the
  crawler only walk that tree, so the tree is the input of the model. A \<open>Tag\<close> has a name,
  its attribute dictionary (values as written in the markup) and its children in document
  order; the document itself is the root \<open>Tag\<close>. \<open>NavigableString\<close> is a text node;
  \<open>Comment\<close> stands for the string nodes that \<^verbatim>\<open>get_text\<close> leaves out (comments,
  declarations). The searches look at the descendants of a tag, never at the tag itself.
\<close>

datatype node =
    Tag (tag_name: ustring) (attrs: "(ustring \<times> ustring) list") (contents: "node list")
  | NavigableString ustring
  | Comment ustring

text \<open>The descendants of a node in document order, each paired with its
  \<^verbatim>\<open>next_siblings\<close>.\<close>

fun subtree :: "node \<Rightarrow> (node \<times> node list) list"
  and forest :: "node list \<Rightarrow> (node \<times> node list) list" where
  "subtree (Tag n a cs) = forest cs"
| "subtree (NavigableString s) = []"
| "subtree (Comment s) = []"
| "forest [] = []"
| "forest (c # cs) = (c, cs) # subtree c @ forest cs"

text \<open>The values of a \<^verbatim>\<open>class\<close> attribute: the maximal runs of non-whitespace characters.\<close>

fun split_ws :: "ustring \<Rightarrow> ustring \<Rightarrow> ustring list" where
  "split_ws cur [] = (if cur = [] then [] else [cur])"
| "split_ws cur (c # cs) =
     (if is_space c then (if cur = [] then split_ws [] cs else cur # split_ws [] cs)
      else split_ws (cur @ [c]) cs)"

text \<open>\<^verbatim>\<open>tag.get(key)\<close>.\<close>

definition get :: "node \<Rightarrow> ustring \<Rightarrow> ustring option" where
  "get n key = (case n of Tag nm a cs \<Rightarrow> map_of a key | _ \<Rightarrow> None)"

text \<open>
  The filter of \<^verbatim>\<open>find(name, class_=cls)\<close>: a tag of that name, and, when a class is asked
  for, one whose \<^verbatim>\<open>class\<close> attribute has it among its values. (The library also accepts
  a tag whose whole \<^verbatim>\<open>class\<close> string is the class asked for; for a class without
  whitespace, as every class the crawler asks for, that is the same condition.)
\<close>

definition matches :: "ustring \<Rightarrow> ustring option \<Rightarrow> node \<Rightarrow> bool" where
  "matches name cls n =
     (case n of
        Tag nm a cs \<Rightarrow>
          nm = name \<and>
          (case cls of
             None \<Rightarrow> True
           | Some c \<Rightarrow>
               (case map_of a (asc ''class'') of
                  None \<Rightarrow> False
                | Some v \<Rightarrow> c \<in> set (split_ws [] v)))
      | _ \<Rightarrow> False)"

definition find_all_located :: "ustring \<Rightarrow> ustring option \<Rightarrow> node \<Rightarrow> (node \<times> node list) list" where
  "find_all_located name cls n = filter (\<lambda>(d, sibs). matches name cls d) (subtree n)"

text \<open>\<^verbatim>\<open>tag.find_all(name, class_=cls)\<close>: the matching descendants, in document order.\<close>

definition find_all :: "ustring \<Rightarrow> ustring option \<Rightarrow> node \<Rightarrow> node list" where
  "find_all name cls n = map fst (find_all_located name cls n)"

text \<open>\<^verbatim>\<open>tag.find(name, class_=cls)\<close>: the first match or \<^verbatim>\<open>None\<close>; \<open>find_located\<close> keeps the
  siblings that follow it.\<close>

definition find_located :: "ustring \<Rightarrow> ustring option \<Rightarrow> node \<Rightarrow> (node \<times> node list) option" where
  "find_located name cls n = (case find_all_located name cls n of [] \<Rightarrow> None | x # xs \<Rightarrow> Some x)"

definition find_tag :: "ustring \<Rightarrow> ustring option \<Rightarrow> node \<Rightarrow> node option" where
  "find_tag name cls n = map_option fst (find_located name cls n)"

text \<open>\<^verbatim>\<open>tag.get_text(strip=True)\<close>: the text nodes below the tag, each stripped, the empty
  ones dropped, joined without a separator.\<close>

definition get_text_strip :: "node \<Rightarrow> ustring" where
  "get_text_strip n =
     concat (filter (\<lambda>s. s \<noteq> [])
       (map strip (concat (map (\<lambda>(d, sibs). case d of NavigableString s \<Rightarrow> [s] | _ \<Rightarrow> [])
          (subtree n)))))"

text \<open>
  The \<^verbatim>\<open>.string\<close> property: a string node is its own string; a tag with exactly one child
  has the string of that child; any other tag has \<^verbatim>\<open>None\<close>.
\<close>

fun string_of :: "node \<Rightarrow> ustring option" where
  "string_of (NavigableString s) = Some s"
| "string_of (Comment s) = Some s"
| "string_of (Tag n a [c]) = string_of c"
| "string_of (Tag n a cs) = None"

text \<open>\<^verbatim>\<open>str(x)\<close> for a string or \<^verbatim>\<open>None\<close>.\<close>

definition py_str :: "ustring option \<Rightarrow> ustring" where
  "py_str x = (case x of None \<Rightarrow> asc ''None'' | Some s \<Rightarrow> s)"

section \<open>The crawler\<close>

text \<open>The loop of \<^verbatim>\<open>_text_after_label\<close> over \<^verbatim>\<open>span.next_siblings\<close>; 58 is the ASCII colon and
  65306 the full-width colon.\<close>

fun first_text :: "node list \<Rightarrow> ustring" where
  "first_text [] = []"
| "first_text (sib # sibs) =
     (let s = strip (py_str (string_of sib))
      in if s \<noteq> [] \<and> s \<noteq> [58] \<and> s \<noteq> [65306] \<and> s \<noteq> asc ''<br/>''
         then strip (remove_char 58 (remove_char 65306 s))
         else first_text sibs)"

definition text_after_label :: "node \<Rightarrow> ustring \<Rightarrow> ustring" where
  "text_after_label parent label_cls =
     (case find_located (asc ''span'') (Some label_cls) parent of
        None \<Rightarrow> []
      | Some (span_tag, next_siblings) \<Rightarrow> first_text next_siblings)"

definition count_star :: "node \<Rightarrow> ustring \<Rightarrow> nat" where
  "count_star score_box li_cls =
     (case find_tag (asc ''li'') (Some li_cls) score_box of
        None \<Rightarrow> 0
      | Some target \<Rightarrow>
          (case find_tag (asc ''p'') (Some (asc ''lucky-box'')) target of
             None \<Rightarrow> 0
           | Some lucky \<Rightarrow> length (find_all (asc ''img'') None lucky)))"

text \<open>
  The rows of the two passes. The columns of the ranking rows are the rank, the Japanese
  sign name and the Korean sign name; those of the detail rows are the Korean sign name,
  the narrative, the lucky colour, the lucky item, the four scores and the link. Ranks come
  from \<^verbatim>\<open>enumerate\<close> and scores from \<^verbatim>\<open>len\<close>, so both are natural numbers.
\<close>

record ranking_row =
  r_rank :: nat
  r_sign_jp :: "ustring option"
  r_sign_kr :: "ustring option"

record detail_row =
  d_sign :: "ustring option"
  d_narrative :: ustring
  d_lucky_color :: ustring
  d_lucky_item :: ustring
  d_money :: nat
  d_love :: nat
  d_work :: nat
  d_health :: nat
  d_link :: ustring

text \<open>A row of the merged frame, in the order of \<^verbatim>\<open>cols_order\<close>. A cell that the left join
  could not fill (pandas shows it as NaN) is \<open>None\<close>.\<close>

record zodiac_row =
  z_rank :: nat
  z_sign :: "ustring option"
  z_link :: "ustring option"
  z_narrative :: "ustring option"
  z_lucky_color :: "ustring option"
  z_lucky_item :: "ustring option"
  z_money :: "nat option"
  z_love :: "nat option"
  z_work :: "nat option"
  z_health :: "nat option"

datatype error =
  ValueError | KeyError | TypeError | OverflowError | MemoryError | AttributeError | LibraryError

definition ranking_rows :: "node \<Rightarrow> ranking_row list" where
  "ranking_rows rank_box =
     map (\<lambda>(i, li).
            let span_tag = find_tag (asc ''span'') None li;
                jp_name = (case span_tag of Some sp \<Rightarrow> Some (get_text_strip sp) | None \<Rightarrow> None)
            in \<lparr>r_rank = i, r_sign_jp = jp_name, r_sign_kr = dict_get jp_to_kr jp_name\<rparr>)
         (enumerate 1 (take 12 (find_all (asc ''li'') None rank_box)))"

definition detail_row_of :: "node \<Rightarrow> detail_row" where
  "detail_row_of box =
     (let zid = get box (asc ''id'');
          kr_name = dict_get zodiak_eng zid;
          read_area = find_tag (asc ''div'') (Some (asc ''read-area'')) box;
          read = (case read_area of
                    None \<Rightarrow> []
                  | Some ra \<Rightarrow>
                      (case find_tag (asc ''p'') (Some (asc ''read'')) ra of
                         Some p \<Rightarrow> get_text_strip p
                       | None \<Rightarrow> []));
          lucky_color = (case read_area of
                           Some ra \<Rightarrow> text_after_label ra (asc ''lucky-color-txt'')
                         | None \<Rightarrow> []);
          key = (case read_area of
                   Some ra \<Rightarrow> text_after_label ra (asc ''key-txt'')
                 | None \<Rightarrow> []);
          score = find_tag (asc ''div'') (Some (asc ''number-one-box'')) box;
          link = (case zid of
                    None \<Rightarrow> []
                  | Some z \<Rightarrow> if z \<noteq> [] then BASE_URL @ asc ''#'' @ z else [])
      in \<lparr>d_sign = kr_name, d_narrative = read, d_lucky_color = lucky_color, d_lucky_item = key,
          d_money = (case score of Some sc \<Rightarrow> count_star sc (asc ''lucky-money'') | None \<Rightarrow> 0),
          d_love = (case score of Some sc \<Rightarrow> count_star sc (asc ''lucky-love'') | None \<Rightarrow> 0),
          d_work = (case score of Some sc \<Rightarrow> count_star sc (asc ''lucky-work'') | None \<Rightarrow> 0),
          d_health = (case score of Some sc \<Rightarrow> count_star sc (asc ''lucky-health'') | None \<Rightarrow> 0),
          d_link = link\<rparr>)"

definition detail_rows :: "node \<Rightarrow> detail_row list" where
  "detail_rows detail =
     map detail_row_of (take 12 (find_all (asc ''div'') (Some (asc ''seiza-box'')) detail))"

text \<open>
  \<^verbatim>\<open>pd.merge(ranking_df[[rank, sign_kr]], detail_df, left_on=sign_kr, right_on=sign, how="left")\<close>
  followed by the renaming and reordering of the columns. The left join keeps the order of
  the ranking rows; a ranking row is paired with every detail row of the same sign name,
  in the order of the detail rows, and gets one row of missing cells when there is none.
  pandas compares a missing key as equal to a missing key, as \<open>=\<close> on \<open>option\<close> does.
\<close>

definition matched :: "ranking_row \<Rightarrow> detail_row \<Rightarrow> zodiac_row" where
  "matched r d =
     \<lparr>z_rank = r_rank r, z_sign = r_sign_kr r, z_link = Some (d_link d),
      z_narrative = Some (d_narrative d), z_lucky_color = Some (d_lucky_color d),
      z_lucky_item = Some (d_lucky_item d), z_money = Some (d_money d),
      z_love = Some (d_love d), z_work = Some (d_work d), z_health = Some (d_health d)\<rparr>"

definition unmatched :: "ranking_row \<Rightarrow> zodiac_row" where
  "unmatched r =
     \<lparr>z_rank = r_rank r, z_sign = r_sign_kr r, z_link = None, z_narrative = None,
      z_lucky_color = None, z_lucky_item = None, z_money = None, z_love = None,
      z_work = None, z_health = None\<rparr>"

definition join_row :: "detail_row list \<Rightarrow> ranking_row \<Rightarrow> zodiac_row list" where
  "join_row ds r =
     (case filter (\<lambda>d. d_sign d = r_sign_kr r) ds of
        [] \<Rightarrow> [unmatched r]
      | m # ms \<Rightarrow> map (matched r) (m # ms))"

text \<open>
  A frame built from an empty list of rows has no columns: selecting the two ranking
  columns from it, or merging on the sign column of it, raises \<^verbatim>\<open>KeyError\<close>.
\<close>

definition merge_left :: "ranking_row list \<Rightarrow> detail_row list \<Rightarrow> error + zodiac_row list" where
  "merge_left ranking detail =
     (if ranking = [] then Inl KeyError
      else if detail = [] then Inl KeyError
      else Inr (concat (map (join_row detail) ranking)))"

definition parse_zodiac :: "node \<Rightarrow> error + zodiac_row list" where
  "parse_zodiac soup =
     (let rank_box = find_tag (asc ''ul'') (Some (asc ''rank-box'')) soup;
          detail = find_tag (asc ''div'') (Some (asc ''seiza-area'')) soup
      in case (rank_box, detail) of
           (Some rb, Some dt) \<Rightarrow> merge_left (ranking_rows rb) (detail_rows dt)
         | _ \<Rightarrow> Inl ValueError)"

text \<open>A merged row in which the left join has filled every detail column.\<close>

definition no_null_detail :: "zodiac_row \<Rightarrow> bool" where
  "no_null_detail z \<longleftrightarrow>
     z_link z \<noteq> None \<and> z_narrative z \<noteq> None \<and> z_lucky_color z \<noteq> None \<and>
     z_lucky_item z \<noteq> None \<and> z_money z \<noteq> None \<and> z_love z \<noteq> None \<and>
     z_work z \<noteq> None \<and> z_health z \<noteq> None"

text \<open>A merged row in which every detail column is missing, empty or zero.\<close>

definition blank_detail :: "zodiac_row \<Rightarrow> bool" where
  "blank_detail z \<longleftrightarrow>
     z_link z \<in> {None, Some []} \<and> z_narrative z \<in> {None, Some []} \<and>
     z_lucky_color z \<in> {None, Some []} \<and> z_lucky_item z \<in> {None, Some []} \<and>
     z_money z \<in> {None, Some 0} \<and> z_love z \<in> {None, Some 0} \<and>
     z_work z \<in> {None, Some 0} \<and> z_health z \<in> {None, Some 0}"

section \<open>The message script\<close>

text \<open>
  The values that reach \<^verbatim>\<open>stars\<close> and \<^verbatim>\<open>translate_text\<close>: cells of a frame row or the
  defaults of \<^verbatim>\<open>row.get\<close>. A finite float is the real number it denotes; NaN and the two
  infinities (\<open>PyInf True\<close> is the positive one) are values of their own.
\<close>

datatype pyval = PyNone | PyInt int | PyFloat real | PyNaN | PyInf bool | PyStr ustring

text \<open>
  \<^verbatim>\<open>int(n)\<close>: a float is truncated towards zero, NaN raises \<^verbatim>\<open>ValueError\<close>, an infinity
  \<^verbatim>\<open>OverflowError\<close>, \<^verbatim>\<open>None\<close> raises \<^verbatim>\<open>TypeError\<close>. The parsing of a string is the
  parameter \<open>int_of_str\<close>, which is \<open>None\<close> where Python raises \<^verbatim>\<open>ValueError\<close>.
\<close>

definition py_int :: "(ustring \<Rightarrow> int option) \<Rightarrow> pyval \<Rightarrow> error + int" where
  "py_int int_of_str n =
     (case n of
        PyNone \<Rightarrow> Inl TypeError
      | PyInt i \<Rightarrow> Inr i
      | PyFloat x \<Rightarrow> Inr (if 0 \<le> x then \<lfloor>x\<rfloor> else \<lceil>x\<rceil>)
      | PyNaN \<Rightarrow> Inl ValueError
      | PyInf b \<Rightarrow> Inl OverflowError
      | PyStr s \<Rightarrow> (case int_of_str s of None \<Rightarrow> Inl ValueError | Some i \<Rightarrow> Inr i))"

text \<open>
  \<^verbatim>\<open>s * n\<close> on a string. The count is first converted to an index, which raises
  \<^verbatim>\<open>OverflowError\<close> outside the range of \<^verbatim>\<open>-sys.maxsize - 1\<close> to \<^verbatim>\<open>sys.maxsize\<close>; a count
  that is not positive gives the empty string; otherwise the result is allocated, which
  raises \<^verbatim>\<open>MemoryError\<close> when it is longer than the machine grants. The two limits depend
  on the machine and are the parameters \<open>maxsize\<close> and \<open>mem\<close> (the longest string that can
  be allocated).
\<close>

definition py_repeat :: "int \<Rightarrow> nat \<Rightarrow> ustring \<Rightarrow> int \<Rightarrow> error + ustring" where
  "py_repeat maxsize mem s n =
     (if n > maxsize \<or> n < - maxsize - 1 then Inl OverflowError
      else if n \<le> 0 then Inr []
      else if nat n * length s > mem then Inl MemoryError
      else Inr (concat (replicate (nat n) s)))"

text \<open>
  \<^verbatim>\<open>stars\<close>; 9733 is the black star. The conversion \<^verbatim>\<open>int(n)\<close> is inside the \<^verbatim>\<open>try\<close>, the
  repetition is not: what it raises leaves the function.
\<close>

definition stars :: "(ustring \<Rightarrow> int option) \<Rightarrow> int \<Rightarrow> nat \<Rightarrow> pyval \<Rightarrow> error + ustring" where
  "stars int_of_str maxsize mem n =
     (let n' = (case py_int int_of_str n of Inr i \<Rightarrow> i | Inl e \<Rightarrow> 0)
      in if n' > 0 then py_repeat maxsize mem [9733] n' else Inr (asc ''-''))"

text \<open>\<^verbatim>\<open>translated.strip()\<close>: only a string has the method.\<close>

definition py_strip :: "pyval \<Rightarrow> error + pyval" where
  "py_strip v = (case v of PyStr s \<Rightarrow> Inr (PyStr (strip s)) | _ \<Rightarrow> Inl AttributeError)"

text \<open>
  \<^verbatim>\<open>translate_text\<close>. The call
  \<^verbatim>\<open>MyMemoryTranslator(source="japanese", target=target_language).translate(text)\<close> is the
  parameter \<open>translate\<close>: it returns a value or raises. The body of the \<^verbatim>\<open>try\<close> is a
  computation that may fail, and the \<^verbatim>\<open>except Exception\<close> clause turns every failure of it
  into the unchanged text. The warning printed by the handler is not part of the model.
\<close>

definition translate_text ::
  "(ustring \<Rightarrow> ustring \<Rightarrow> error + pyval) \<Rightarrow> pyval \<Rightarrow> ustring \<Rightarrow> error + pyval" where
  "translate_text translate text target_language =
     (case text of
        PyStr s \<Rightarrow>
          if s = [] then Inr text
          else
            (case (case translate target_language s of
                     Inl e \<Rightarrow> Inl e
                   | Inr translated \<Rightarrow> py_strip translated) of
               Inr v \<Rightarrow> Inr v
             | Inl e \<Rightarrow> Inr text)
      | _ \<Rightarrow> Inr text)"

section \<open>Fixtures\<close>

text \<open>Pages in the layout the crawler expects, for evaluating it on concrete input.\<close>

definition el :: "string \<Rightarrow> string \<Rightarrow> node list \<Rightarrow> node" where
  "el name cls cs = Tag (asc name) [(asc ''class'', asc cls)] cs"

definition rank_item :: "ustring \<Rightarrow> node" where
  "rank_item jp = Tag (asc ''li'') [] [Tag (asc ''span'') [] [NavigableString jp]]"

definition score_item :: "string \<Rightarrow> nat \<Rightarrow> node" where
  "score_item cls n = el ''li'' cls [el ''p'' ''lucky-box'' (replicate n (Tag (asc ''img'') [] []))]"

definition score_box :: "nat \<Rightarrow> nat \<Rightarrow> nat \<Rightarrow> nat \<Rightarrow> node" where
  "score_box m l w h =
     el ''div'' ''number-one-box''
       [Tag (asc ''ul'') []
          [score_item ''lucky-money'' m, score_item ''lucky-love'' l,
           score_item ''lucky-work'' w, score_item ''lucky-health'' h]]"

definition seiza_box :: "string \<Rightarrow> ustring \<Rightarrow> nat \<Rightarrow> nat \<Rightarrow> nat \<Rightarrow> nat \<Rightarrow> node" where
  "seiza_box zid txt m l w h =
     Tag (asc ''div'') [(asc ''class'', asc ''seiza-box''), (asc ''id'', asc zid)]
       [el ''div'' ''read-area'' [el ''p'' ''read'' [NavigableString txt]], score_box m l w h]"

definition page :: "node list \<Rightarrow> node list \<Rightarrow> node" where
  "page items boxes =
     Tag (asc ''[document]'') [] [el ''ul'' ''rank-box'' items, el ''div'' ''seiza-area'' boxes]"

text \<open>The twelve signs ranked with Taurus first.\<close>

definition twelve_items :: "node list" where
  "twelve_items =
     map rank_item
       [jp_taurus, jp_aries, jp_gemini, jp_cancer, jp_leo, jp_virgo, jp_libra, jp_scorpio,
        jp_sagittarius, jp_capricorn, jp_aquarius, jp_pisces]"

definition twelve_boxes :: "node list" where
  "twelve_boxes =
     map (\<lambda>zid. seiza_box zid (asc ''test message'') 2 0 0 0)
       [''ohitsuji'', ''ousi'', ''futago'', ''kani'', ''sisi'', ''otome'', ''tenbin'', ''sasori'',
        ''ite'', ''yagi'', ''mizugame'', ''uo'']"

text \<open>The same with a thirteenth ranking item and a thirteenth detail block, both of Taurus
  again.\<close>

definition thirteen_items :: "node list" where
  "thirteen_items =
     map rank_item
       [jp_taurus, jp_aries, jp_gemini, jp_cancer, jp_leo, jp_virgo, jp_libra, jp_scorpio,
        jp_sagittarius, jp_capricorn, jp_aquarius, jp_pisces, jp_taurus]"

definition thirteen_boxes :: "node list" where
  "thirteen_boxes =
     map (\<lambda>zid. seiza_box zid (asc ''test message'') 2 0 0 0)
       [''ohitsuji'', ''ousi'', ''futago'', ''kani'', ''sisi'', ''otome'', ''tenbin'', ''sasori'',
        ''ite'', ''yagi'', ''mizugame'', ''uo'', ''ousi'']"

text \<open>A label, a line break and then the value, inside a read area.\<close>

definition label_break_value :: node where
  "label_break_value =
     el ''div'' ''read-area''
       [el ''span'' ''lucky-color-txt'' [NavigableString (asc ''color'')],
        Tag (asc ''br'') [] [],
        NavigableString (asc ''red'')]"

text \<open>A label, a text node holding only the full-width colon, and then the value.\<close>

definition label_colon_value :: node where
  "label_colon_value =
     el ''div'' ''read-area''
       [el ''span'' ''lucky-color-txt'' [NavigableString (asc ''color'')],
        NavigableString [65306],
        NavigableString (asc '' red '')]"

section \<open>Evaluation of the dictionaries\<close>

lemmas sign_names =
  kr_aries_def kr_taurus_def kr_gemini_def kr_cancer_def kr_leo_def kr_virgo_def
  kr_libra_def kr_scorpio_def kr_sagittarius_def kr_capricorn_def kr_aquarius_def kr_pisces_def
  jp_aries_def jp_taurus_def jp_gemini_def jp_cancer_def jp_leo_def jp_virgo_def
  jp_libra_def jp_scorpio_def jp_sagittarius_def jp_capricorn_def jp_aquarius_def jp_pisces_def

lemma jp_to_kr_eq:
  "jp_to_kr =
     [(jp_aries, kr_aries), (jp_taurus, kr_taurus), (jp_gemini, kr_gemini),
      (jp_cancer, kr_cancer), (jp_leo, kr_leo), (jp_virgo, kr_virgo),
      (jp_libra, kr_libra), (jp_scorpio, kr_scorpio), (jp_sagittarius, kr_sagittarius),
      (jp_capricorn, kr_capricorn), (jp_aquarius, kr_aquarius), (jp_pisces, kr_pisces)]"
  by (simp add: jp_to_kr_def zodiak_kr_jp_def sign_names)

lemma map_of_swap:
  assumes "distinct (map snd xs)" "map_of xs k = Some v"
  shows "map_of (map prod.swap xs) v = Some k"
proof -
  from assms(2) have "(k, v) \<in> set xs" by (rule map_of_SomeD)
  then have "(v, k) \<in> set (map prod.swap xs)" by force
  moreover have "distinct (map fst (map prod.swap xs))"
    using assms(1) by (simp add: comp_def)
  ultimately show ?thesis by (rule map_of_is_SomeI [rotated])
qed

lemma jp_to_kr_swap: "jp_to_kr = map prod.swap zodiak_kr_jp"
  by (simp add: jp_to_kr_eq zodiak_kr_jp_def)

lemma zodiak_kr_jp_swap: "zodiak_kr_jp = map prod.swap jp_to_kr"
  by (simp add: jp_to_kr_eq zodiak_kr_jp_def)

lemma zodiak_eng_ids:
  "dict_get zodiak_eng (Some (asc ''ohitsuji'')) = Some kr_aries"
  "dict_get zodiak_eng (Some (asc ''ousi'')) = Some kr_taurus"
  "dict_get zodiak_eng (Some (asc ''futago'')) = Some kr_gemini"
  "dict_get zodiak_eng (Some (asc ''kani'')) = Some kr_cancer"
  "dict_get zodiak_eng (Some (asc ''sisi'')) = Some kr_leo"
  "dict_get zodiak_eng (Some (asc ''otome'')) = Some kr_virgo"
  "dict_get zodiak_eng (Some (asc ''tenbin'')) = Some kr_libra"
  "dict_get zodiak_eng (Some (asc ''sasori'')) = Some kr_scorpio"
  "dict_get zodiak_eng (Some (asc ''ite'')) = Some kr_sagittarius"
  "dict_get zodiak_eng (Some (asc ''yagi'')) = Some kr_capricorn"
  "dict_get zodiak_eng (Some (asc ''mizugame'')) = Some kr_aquarius"
  "dict_get zodiak_eng (Some (asc ''uo'')) = Some kr_pisces"
  by (simp_all add: dict_get_def zodiak_eng_def asc_def)

text \<open>
  C10. The two sign-name dictionaries \<^verbatim>\<open>zodiak_kr_jp\<close> and \<^verbatim>\<open>jp_to_kr\<close> are mutually
  inverse bijections over the twelve signs: each has exactly 12 distinct keys and 12
  distinct values, a Korean name that \<^verbatim>\<open>zodiak_kr_jp\<close> maps to a Japanese name is what
  \<^verbatim>\<open>jp_to_kr\<close> returns for that Japanese name, and conversely.
\<close>

theorem sign_dictionaries_inverse:
  "length zodiak_kr_jp = 12 \<and> distinct (map fst zodiak_kr_jp) \<and> distinct (map snd zodiak_kr_jp) \<and>
   length jp_to_kr = 12 \<and> distinct (map fst jp_to_kr) \<and> distinct (map snd jp_to_kr) \<and>
   (\<forall>k v. dict_get zodiak_kr_jp (Some k) = Some v \<longrightarrow> dict_get jp_to_kr (Some v) = Some k) \<and>
   (\<forall>j k. dict_get jp_to_kr (Some j) = Some k \<longrightarrow> dict_get zodiak_kr_jp (Some k) = Some j)"
proof (intro conjI allI impI)
  show "length zodiak_kr_jp = 12" by (simp add: zodiak_kr_jp_def)
  show "distinct (map fst zodiak_kr_jp)" by (simp add: zodiak_kr_jp_def sign_names)
  show "distinct (map snd zodiak_kr_jp)" by (simp add: zodiak_kr_jp_def sign_names)
  show "length jp_to_kr = 12" by (simp add: jp_to_kr_eq)
  show "distinct (map fst jp_to_kr)" by (simp add: jp_to_kr_eq sign_names)
  show "distinct (map snd jp_to_kr)" by (simp add: jp_to_kr_eq sign_names)
next
  fix k v
  assume "dict_get zodiak_kr_jp (Some k) = Some v"
  moreover have "distinct (map snd zodiak_kr_jp)"
    by (simp add: zodiak_kr_jp_def sign_names)
  ultimately show "dict_get jp_to_kr (Some v) = Some k"
    by (simp add: dict_get_def jp_to_kr_swap map_of_swap)
next
  fix j k
  assume "dict_get jp_to_kr (Some j) = Some k"
  moreover have "distinct (map snd jp_to_kr)"
    by (simp add: jp_to_kr_eq sign_names)
  moreover have "map_of zodiak_kr_jp = map_of (map prod.swap jp_to_kr)"
    using zodiak_kr_jp_swap by simp
  ultimately show "dict_get zodiak_kr_jp (Some k) = Some j"
    by (simp add: dict_get_def map_of_swap)
qed

theorem sign_dictionaries_inverse_witness:
  "dict_get zodiak_kr_jp (Some kr_taurus) = Some jp_taurus \<and>
   dict_get jp_to_kr (Some jp_taurus) = Some kr_taurus \<and>
   dict_get jp_to_kr (Some jp_pisces) = Some kr_pisces \<and>
   dict_get zodiak_kr_jp (Some kr_pisces) = Some jp_pisces"
proof -
  have h: "dict_get zodiak_kr_jp (Some kr_taurus) = Some jp_taurus"
    by (simp add: dict_get_def zodiak_kr_jp_def sign_names)
  have g: "dict_get jp_to_kr (Some jp_taurus) = Some kr_taurus"
    using sign_dictionaries_inverse h by blast
  have h': "dict_get jp_to_kr (Some jp_pisces) = Some kr_pisces"
    by (simp add: dict_get_def jp_to_kr_eq sign_names)
  have g': "dict_get zodiak_kr_jp (Some kr_pisces) = Some jp_pisces"
    using sign_dictionaries_inverse h' by blast
  from h g h' g' show ?thesis by simp
qed

section \<open>The two passes and the left join\<close>

lemma length_ranking_rows:
  "length (ranking_rows rb) = min (length (find_all (asc ''li'') None rb)) 12"
  by (simp add: ranking_rows_def)

lemma length_detail_rows:
  "length (detail_rows dt) = min (length (find_all (asc ''div'') (Some (asc ''seiza-box'')) dt)) 12"
  by (simp add: detail_rows_def)

lemma rank_ranking_rows:
  "map r_rank (ranking_rows rb) = [1..<Suc (length (ranking_rows rb))]"
proof -
  let ?lis = "take 12 (find_all (asc ''li'') None rb)"
  have "map r_rank (ranking_rows rb) = map fst (enumerate 1 ?lis)"
    by (simp add: ranking_rows_def Let_def case_prod_unfold comp_def)
  also have "\<dots> = [1..<Suc (length ?lis)]"
    by simp
  finally show ?thesis
    by (simp add: ranking_rows_def)
qed

lemma ranking_row_kr:
  "r \<in> set (ranking_rows rb) \<Longrightarrow> r_sign_kr r = dict_get jp_to_kr (r_sign_jp r)"
  by (auto simp: ranking_rows_def Let_def)

lemma ranking_rows_first:
  assumes "find_all (asc ''li'') None rb = li # lis"
    and "find_tag (asc ''span'') None li = Some sp"
  shows "\<lparr>r_rank = 1, r_sign_jp = Some (get_text_strip sp),
           r_sign_kr = dict_get jp_to_kr (Some (get_text_strip sp))\<rparr> \<in> set (ranking_rows rb)"
  using assms by (simp add: ranking_rows_def Let_def)

lemma join_row_fields:
  "z \<in> set (join_row ds r) \<Longrightarrow> z_rank z = r_rank r \<and> z_sign z = r_sign_kr r"
  by (auto simp: join_row_def matched_def unmatched_def split: list.splits)

lemma join_row_matched:
  "d \<in> set ds \<Longrightarrow> d_sign d = r_sign_kr r \<Longrightarrow> matched r d \<in> set (join_row ds r)"
proof -
  assume a: "d \<in> set ds" "d_sign d = r_sign_kr r"
  then have "d \<in> set (filter (\<lambda>d. d_sign d = r_sign_kr r) ds)" by simp
  then show ?thesis
    by (cases "filter (\<lambda>d. d_sign d = r_sign_kr r) ds") (auto simp: join_row_def)
qed

lemma join_row_unmatched:
  "r_sign_kr r \<notin> d_sign ` set ds \<Longrightarrow> join_row ds r = [unmatched r]"
proof -
  assume "r_sign_kr r \<notin> d_sign ` set ds"
  then have "filter (\<lambda>d. d_sign d = r_sign_kr r) ds = []"
    unfolding filter_empty_conv by (metis imageI)
  then show ?thesis by (simp add: join_row_def)
qed

lemma filter_distinct_key:
  "distinct (map f xs) \<Longrightarrow> length (filter (\<lambda>x. f x = k) xs) \<le> 1"
proof (induction xs)
  case Nil
  then show ?case by simp
next
  case (Cons x xs)
  show ?case
  proof (cases "f x = k")
    case True
    with Cons.prems have "\<forall>y \<in> set xs. f y \<noteq> k" by (metis distinct.simps(2) imageI list.simps(9) set_map)
    then have "filter (\<lambda>x. f x = k) xs = []" by (simp add: filter_empty_conv)
    with True show ?thesis by simp
  next
    case False
    with Cons show ?thesis by simp
  qed
qed

lemma join_row_length:
  "distinct (map d_sign ds) \<Longrightarrow> length (join_row ds r) = 1"
  using filter_distinct_key [of d_sign ds "r_sign_kr r"]
  by (cases "filter (\<lambda>d. d_sign d = r_sign_kr r) ds") (auto simp: join_row_def)

lemma join_row_single:
  assumes "distinct (map d_sign ds)" "r_sign_kr r \<in> d_sign ` set ds"
  shows "\<exists>d \<in> set ds. join_row ds r = [matched r d]"
proof -
  from assms(2) obtain d where d: "d \<in> set ds" "d_sign d = r_sign_kr r" by auto
  then have "matched r d \<in> set (join_row ds r)" by (rule join_row_matched)
  moreover have "length (join_row ds r) = 1" using assms(1) by (rule join_row_length)
  ultimately have "join_row ds r = [matched r d]"
    by (cases "join_row ds r") auto
  with d show ?thesis by blast
qed

lemma length_concat_join:
  "distinct (map d_sign ds) \<Longrightarrow> length (concat (map (join_row ds) rs)) = length rs"
  by (induction rs) (simp_all add: join_row_length)

lemma rank_concat_join:
  "distinct (map d_sign ds) \<Longrightarrow> map z_rank (concat (map (join_row ds) rs)) = map r_rank rs"
proof (induction rs)
  case Nil
  then show ?case by simp
next
  case (Cons r rs)
  from Cons.prems have "length (join_row ds r) = 1" by (rule join_row_length)
  then obtain z where z: "join_row ds r = [z]"
    by (cases "join_row ds r") auto
  then have "z_rank z = r_rank r" using join_row_fields [of z ds r] by simp
  with z Cons show ?case by simp
qed

lemma join_row_bound: "length (join_row ds r) \<le> max 1 (length ds)"
proof -
  have "length (filter (\<lambda>d. d_sign d = r_sign_kr r) ds) \<le> length ds"
    by (rule length_filter_le)
  then show ?thesis
    by (cases "filter (\<lambda>d. d_sign d = r_sign_kr r) ds") (auto simp: join_row_def)
qed

lemma length_concat_bound:
  "length (concat (map (join_row ds) rs)) \<le> length rs * max 1 (length ds)"
proof (induction rs)
  case Nil
  then show ?case by simp
next
  case (Cons r rs)
  have "length (concat (map (join_row ds) (r # rs))) =
          length (join_row ds r) + length (concat (map (join_row ds) rs))"
    by simp
  also have "\<dots> \<le> max 1 (length ds) + length rs * max 1 (length ds)"
    using join_row_bound [of ds r] Cons.IH by (rule add_mono)
  finally show ?case by simp
qed

lemma matched_no_null: "no_null_detail (matched r d)"
  by (simp add: no_null_detail_def matched_def)

lemma merge_left_matched:
  assumes "r \<in> set rs" "d \<in> set ds" "d_sign d = r_sign_kr r"
  shows "\<exists>rows. merge_left rs ds = Inr rows \<and> matched r d \<in> set rows"
proof -
  from assms have "matched r d \<in> set (join_row ds r)" by (simp add: join_row_matched)
  with assms(1) have "matched r d \<in> set (concat (map (join_row ds) rs))" by auto
  moreover from assms have "rs \<noteq> []" "ds \<noteq> []" by auto
  ultimately show ?thesis by (simp add: merge_left_def)
qed

lemma merge_left_not_ValueError: "merge_left rs ds \<noteq> Inl ValueError"
  by (simp add: merge_left_def)

lemma parse_zodiac_found:
  "find_tag (asc ''ul'') (Some (asc ''rank-box'')) soup = Some rb \<Longrightarrow>
   find_tag (asc ''div'') (Some (asc ''seiza-area'')) soup = Some dt \<Longrightarrow>
   parse_zodiac soup = merge_left (ranking_rows rb) (detail_rows dt)"
  by (simp add: parse_zodiac_def)

lemma parse_zodiac_ValueError:
  "parse_zodiac soup = Inl ValueError \<longleftrightarrow>
     find_tag (asc ''ul'') (Some (asc ''rank-box'')) soup = None \<or>
     find_tag (asc ''div'') (Some (asc ''seiza-area'')) soup = None"
  by (auto simp: parse_zodiac_def merge_left_not_ValueError split: option.splits)

lemma parse_zodiac_InrD:
  assumes "parse_zodiac soup = Inr rows"
  obtains rb dt where "find_tag (asc ''ul'') (Some (asc ''rank-box'')) soup = Some rb"
    and "find_tag (asc ''div'') (Some (asc ''seiza-area'')) soup = Some dt"
    and "ranking_rows rb \<noteq> []" and "detail_rows dt \<noteq> []"
    and "rows = concat (map (join_row (detail_rows dt)) (ranking_rows rb))"
  using assms
  by (auto simp: parse_zodiac_def merge_left_def split: option.splits if_splits)

section \<open>Evaluation of the fixtures\<close>

lemmas bs_defs = asc_def is_space_def strip_def remove_char_def dict_get_def get_def matches_def
  find_all_located_def find_all_def find_located_def find_tag_def get_text_strip_def py_str_def

lemmas fixture_defs = el_def rank_item_def score_item_def seiza_box_def page_def

lemma page_rank_box:
  "find_tag (asc ''ul'') (Some (asc ''rank-box'')) (page items boxes) = Some (el ''ul'' ''rank-box'' items)"
  by (simp add: bs_defs fixture_defs)

lemma forest_rank_items:
  "filter (\<lambda>(d, sibs). matches (asc ''div'') (Some (asc ''seiza-area'')) d) (forest (map rank_item js)) = []"
  by (induction js) (simp_all add: bs_defs fixture_defs)

lemma page_seiza_area:
  "find_tag (asc ''div'') (Some (asc ''seiza-area'')) (page (map rank_item js) boxes) =
     Some (el ''div'' ''seiza-area'' boxes)"
  using forest_rank_items [of js] by (simp add: bs_defs fixture_defs)

lemma find_all_rank_items:
  "find_all (asc ''li'') None (el ''ul'' ''rank-box'' (map rank_item js)) = map rank_item js"
proof -
  have "map fst (filter (\<lambda>(d, sibs). matches (asc ''li'') None d) (forest (map rank_item js))) =
          map rank_item js"
    by (induction js) (simp_all add: bs_defs fixture_defs)
  then show ?thesis
    by (simp add: find_all_def find_all_located_def el_def)
qed

lemma rank_item_name:
  "find_tag (asc ''span'') None (rank_item jp) = Some (Tag (asc ''span'') [] [NavigableString jp])"
  "get_text_strip (Tag (asc ''span'') [] [NavigableString jp]) = strip jp"
  by (simp_all add: bs_defs fixture_defs)

lemma imgs: "map fst (filter (\<lambda>(d, sibs). matches (asc ''img'') None d)
         (forest (replicate n (Tag (asc ''img'') [] [])))) = replicate n (Tag (asc ''img'') [] [])"
  by (induction n) (simp_all add: bs_defs)

lemma no_li_in_imgs: "filter (\<lambda>(d, sibs). matches (asc ''li'') c d)
         (forest (replicate n (Tag (asc ''img'') [] []))) = []"
  by (induction n) (simp_all add: bs_defs)

lemma no_div_in_imgs: "filter (\<lambda>(d, sibs). matches (asc ''div'') c d)
         (forest (replicate n (Tag (asc ''img'') [] []))) = []"
  by (induction n) (simp_all add: bs_defs)

lemma count_star_score_box:
  "count_star (score_box m l w h) (asc ''lucky-money'') = m"
  "count_star (score_box m l w h) (asc ''lucky-love'') = l"
  "count_star (score_box m l w h) (asc ''lucky-work'') = w"
  "count_star (score_box m l w h) (asc ''lucky-health'') = h"
  using imgs [of m] imgs [of l] imgs [of w] imgs [of h]
    no_li_in_imgs [of _ m] no_li_in_imgs [of _ l] no_li_in_imgs [of _ w] no_li_in_imgs [of _ h]
  by (simp_all add: score_box_def count_star_def bs_defs fixture_defs del: replicate.simps)

lemma no_match_in_score_box:
  "nm \<noteq> asc ''li'' \<Longrightarrow> nm \<noteq> asc ''p'' \<Longrightarrow> nm \<noteq> asc ''img'' \<Longrightarrow> nm \<noteq> asc ''ul'' \<Longrightarrow>
   filter (\<lambda>(d, sibs). matches nm c d) (subtree (score_box m l w h)) = []"
proof -
  have "nm \<noteq> asc ''img'' \<Longrightarrow> filter (\<lambda>(d, sibs). matches nm c d)
         (forest (replicate n (Tag (asc ''img'') [] []))) = []" for n
    by (induction n) (simp_all add: bs_defs)
  then show "nm \<noteq> asc ''li'' \<Longrightarrow> nm \<noteq> asc ''p'' \<Longrightarrow> nm \<noteq> asc ''img'' \<Longrightarrow> nm \<noteq> asc ''ul'' \<Longrightarrow> ?thesis"
    by (simp add: score_box_def matches_def el_def score_item_def del: replicate.simps)
qed

lemma score_box_is_score:
  "matches (asc ''div'') (Some (asc ''number-one-box'')) (score_box m l w h)"
  "\<not> matches (asc ''div'') (Some (asc ''read-area'')) (score_box m l w h)"
  "\<not> matches (asc ''div'') (Some (asc ''seiza-box'')) (score_box m l w h)"
  by (simp_all add: score_box_def bs_defs fixture_defs)

lemma seiza_box_parts:
  "get (seiza_box zid t m l w h) (asc ''id'') = Some (asc zid)"
  "find_tag (asc ''div'') (Some (asc ''read-area'')) (seiza_box zid t m l w h) =
     Some (el ''div'' ''read-area'' [el ''p'' ''read'' [NavigableString t]])"
  "find_tag (asc ''p'') (Some (asc ''read'')) (el ''div'' ''read-area'' [el ''p'' ''read'' [NavigableString t]]) =
     Some (el ''p'' ''read'' [NavigableString t])"
  "get_text_strip (el ''p'' ''read'' [NavigableString t]) = strip t"
  "find_tag (asc ''div'') (Some (asc ''number-one-box'')) (seiza_box zid t m l w h) =
     Some (score_box m l w h)"
proof -
  have nd: "filter (\<lambda>(d, sibs). matches (asc ''div'') c d) (subtree (score_box m l w h)) = []" for c
    by (rule no_match_in_score_box) (simp_all add: asc_def)
  show "get (seiza_box zid t m l w h) (asc ''id'') = Some (asc zid)"
    by (simp add: get_def seiza_box_def asc_def)
  show "find_tag (asc ''div'') (Some (asc ''read-area'')) (seiza_box zid t m l w h) =
     Some (el ''div'' ''read-area'' [el ''p'' ''read'' [NavigableString t]])"
    by (simp add: find_tag_def find_located_def find_all_located_def seiza_box_def)
       (simp add: matches_def el_def asc_def is_space_def)
  show "find_tag (asc ''p'') (Some (asc ''read'')) (el ''div'' ''read-area'' [el ''p'' ''read'' [NavigableString t]]) =
     Some (el ''p'' ''read'' [NavigableString t])"
    by (simp add: bs_defs fixture_defs)
  show "get_text_strip (el ''p'' ''read'' [NavigableString t]) = strip t"
    by (simp add: get_text_strip_def el_def)
  show "find_tag (asc ''div'') (Some (asc ''number-one-box'')) (seiza_box zid t m l w h) =
     Some (score_box m l w h)"
    using score_box_is_score(1) [of m l w h]
    by (simp add: find_tag_def find_located_def find_all_located_def seiza_box_def nd)
       (simp add: matches_def el_def asc_def is_space_def)
qed

lemma detail_row_of_seiza_box:
  "detail_row_of (seiza_box zid txt m l w h) =
     \<lparr>d_sign = dict_get zodiak_eng (Some (asc zid)), d_narrative = strip txt,
      d_lucky_color = [], d_lucky_item = [], d_money = m, d_love = l, d_work = w, d_health = h,
      d_link = (if zid \<noteq> [] then BASE_URL @ asc ''#'' @ asc zid else [])\<rparr>"
proof -
  have "text_after_label (el ''div'' ''read-area'' [el ''p'' ''read'' [NavigableString txt]]) c = []" for c
    by (simp add: text_after_label_def find_located_def find_all_located_def matches_def el_def asc_def)
  then show ?thesis
    by (simp add: detail_row_of_def seiza_box_parts count_star_score_box) (simp add: asc_def)
qed

lemma no_seiza_box_inside:
  "filter (\<lambda>(d, sibs). matches (asc ''div'') (Some (asc ''seiza-box'')) d)
     (subtree (seiza_box zid txt m l w h)) = []"
proof -
  have nd: "filter (\<lambda>(d, sibs). matches (asc ''div'') c d) (subtree (score_box m l w h)) = []" for c
    by (rule no_match_in_score_box) (simp_all add: asc_def)
  show ?thesis
    using score_box_is_score(3) [of m l w h]
    by (simp add: seiza_box_def nd) (simp add: matches_def el_def asc_def is_space_def)
qed

lemma seiza_box_is_box:
  "matches (asc ''div'') (Some (asc ''seiza-box'')) (seiza_box zid txt m l w h)"
  by (simp add: seiza_box_def matches_def asc_def is_space_def)

lemma find_all_seiza_boxes:
  assumes "\<forall>b \<in> set bs. \<exists>zid txt m l w h. b = seiza_box zid txt m l w h"
  shows "find_all (asc ''div'') (Some (asc ''seiza-box'')) (el ''div'' ''seiza-area'' bs) = bs"
proof -
  have "map fst (filter (\<lambda>(d, sibs). matches (asc ''div'') (Some (asc ''seiza-box'')) d) (forest bs)) = bs"
    using assms
  proof (induction bs)
    case Nil
    then show ?case by simp
  next
    case (Cons b bs)
    then obtain zid t m l w h where b: "b = seiza_box zid t m l w h"
      by auto
    from Cons have "map fst (filter (\<lambda>(d, sibs). matches (asc ''div'') (Some (asc ''seiza-box'')) d) (forest bs)) = bs"
      by simp
    then show ?case
      by (simp add: b no_seiza_box_inside seiza_box_is_box)
  qed
  then show ?thesis
    by (simp add: find_all_def find_all_located_def el_def)
qed

lemma ranking_rows_items:
  "ranking_rows (el ''ul'' ''rank-box'' (map rank_item js)) =
     map (\<lambda>(i, jp). \<lparr>r_rank = i, r_sign_jp = Some (strip jp),
                      r_sign_kr = dict_get jp_to_kr (Some (strip jp))\<rparr>)
       (enumerate 1 (take 12 js))"
proof -
  have "map (\<lambda>(i, li). f i li) (enumerate n (map rank_item xs)) =
        map (\<lambda>(i, jp). f i (rank_item jp)) (enumerate n xs)" for f :: "nat \<Rightarrow> node \<Rightarrow> ranking_row" and n xs
    by (induction xs arbitrary: n) simp_all
  then show ?thesis
    by (simp add: ranking_rows_def find_all_rank_items rank_item_name take_map Let_def)
qed

lemma twelve_ranking_rows:
  "ranking_rows (el ''ul'' ''rank-box'' twelve_items) =
     [\<lparr>r_rank = 1, r_sign_jp = Some jp_taurus, r_sign_kr = Some kr_taurus\<rparr>,
      \<lparr>r_rank = 2, r_sign_jp = Some jp_aries, r_sign_kr = Some kr_aries\<rparr>,
      \<lparr>r_rank = 3, r_sign_jp = Some jp_gemini, r_sign_kr = Some kr_gemini\<rparr>,
      \<lparr>r_rank = 4, r_sign_jp = Some jp_cancer, r_sign_kr = Some kr_cancer\<rparr>,
      \<lparr>r_rank = 5, r_sign_jp = Some jp_leo, r_sign_kr = Some kr_leo\<rparr>,
      \<lparr>r_rank = 6, r_sign_jp = Some jp_virgo, r_sign_kr = Some kr_virgo\<rparr>,
      \<lparr>r_rank = 7, r_sign_jp = Some jp_libra, r_sign_kr = Some kr_libra\<rparr>,
      \<lparr>r_rank = 8, r_sign_jp = Some jp_scorpio, r_sign_kr = Some kr_scorpio\<rparr>,
      \<lparr>r_rank = 9, r_sign_jp = Some jp_sagittarius, r_sign_kr = Some kr_sagittarius\<rparr>,
      \<lparr>r_rank = 10, r_sign_jp = Some jp_capricorn, r_sign_kr = Some kr_capricorn\<rparr>,
      \<lparr>r_rank = 11, r_sign_jp = Some jp_aquarius, r_sign_kr = Some kr_aquarius\<rparr>,
      \<lparr>r_rank = 12, r_sign_jp = Some jp_pisces, r_sign_kr = Some kr_pisces\<rparr>]"
  unfolding twelve_items_def ranking_rows_items
  by (simp add: strip_def is_space_def dict_get_def jp_to_kr_eq sign_names)

lemma twelve_detail_signs:
  "map d_sign (detail_rows (el ''div'' ''seiza-area'' twelve_boxes)) =
     [Some kr_aries, Some kr_taurus, Some kr_gemini, Some kr_cancer, Some kr_leo, Some kr_virgo,
      Some kr_libra, Some kr_scorpio, Some kr_sagittarius, Some kr_capricorn, Some kr_aquarius,
      Some kr_pisces]"
proof -
  have "find_all (asc ''div'') (Some (asc ''seiza-box'')) (el ''div'' ''seiza-area'' twelve_boxes) = twelve_boxes"
    by (rule find_all_seiza_boxes) (auto simp: twelve_boxes_def, blast+)
  then show ?thesis
    by (simp add: detail_rows_def twelve_boxes_def detail_row_of_seiza_box zodiak_eng_ids)
qed

lemma twelve_page:
  "find_tag (asc ''ul'') (Some (asc ''rank-box'')) (page twelve_items bs) =
     Some (el ''ul'' ''rank-box'' twelve_items)"
  "find_tag (asc ''div'') (Some (asc ''seiza-area'')) (page twelve_items bs) =
     Some (el ''div'' ''seiza-area'' bs)"
  unfolding twelve_items_def by (rule page_rank_box, rule page_seiza_area)

lemma twelve_page_rows:
  "parse_zodiac (page twelve_items twelve_boxes) =
     Inr (concat (map (join_row (detail_rows (el ''div'' ''seiza-area'' twelve_boxes)))
       (ranking_rows (el ''ul'' ''rank-box'' twelve_items))))"
proof -
  have "length (ranking_rows (el ''ul'' ''rank-box'' twelve_items)) = 12"
    by (simp add: twelve_ranking_rows)
  moreover have "length (map d_sign (detail_rows (el ''div'' ''seiza-area'' twelve_boxes))) = 12"
    unfolding twelve_detail_signs by simp
  ultimately have "ranking_rows (el ''ul'' ''rank-box'' twelve_items) \<noteq> []"
    "detail_rows (el ''div'' ''seiza-area'' twelve_boxes) \<noteq> []"
    by auto
  then show ?thesis
    by (simp add: parse_zodiac_found [OF twelve_page] merge_left_def)
qed

lemma one_item_box_page:
  "find_tag (asc ''ul'') (Some (asc ''rank-box'')) (page [rank_item jp] bs) =
     Some (el ''ul'' ''rank-box'' [rank_item jp])"
  "find_tag (asc ''div'') (Some (asc ''seiza-area'')) (page [rank_item jp] bs) =
     Some (el ''div'' ''seiza-area'' bs)"
  using page_rank_box [of "[rank_item jp]" bs] page_seiza_area [of "[jp]" bs] by simp_all

lemma one_item_ranking_rows:
  "ranking_rows (el ''ul'' ''rank-box'' [rank_item (asc ''Taurus'')]) =
     [\<lparr>r_rank = 1, r_sign_jp = Some (asc ''Taurus''), r_sign_kr = None\<rparr>]"
  using ranking_rows_items [of "[asc ''Taurus'']"]
  by (simp add: strip_def is_space_def asc_def dict_get_def jp_to_kr_eq sign_names)

lemma one_box_detail_rows:
  "detail_rows (el ''div'' ''seiza-area'' [seiza_box zid t m l w h]) =
     [detail_row_of (seiza_box zid t m l w h)]"
proof -
  have "find_all (asc ''div'') (Some (asc ''seiza-box'')) (el ''div'' ''seiza-area'' [seiza_box zid t m l w h]) =
          [seiza_box zid t m l w h]"
    by (rule find_all_seiza_boxes) (simp, blast)
  then show ?thesis by (simp add: detail_rows_def)
qed

section \<open>The extractor\<close>

text \<open>
  C1. When the first item of the ranking container is labelled with the Japanese name of
  Taurus, and one of the first 12 blocks of the detail container has the id \<^verbatim>\<open>ousi\<close>, the
  narrative \<^verbatim>\<open>test message\<close>, two icons in the lucky box of the money category and none in
  those of love, work and health, the output of \<^verbatim>\<open>parse_zodiac\<close> contains the row with rank
  1, the Korean name of Taurus, the link \<^verbatim>\<open>BASE_URL + "#ousi"\<close>, that narrative and the scores
  2, 0, 0, 0.
\<close>

theorem parse_zodiac_taurus_row:
  assumes rb: "find_tag (asc ''ul'') (Some (asc ''rank-box'')) soup = Some rb"
    and dt: "find_tag (asc ''div'') (Some (asc ''seiza-area'')) soup = Some dt"
    and items: "find_all (asc ''li'') None rb = li # lis"
    and label: "find_tag (asc ''span'') None li = Some sp" "get_text_strip sp = jp_taurus"
    and box: "box \<in> set (take 12 (find_all (asc ''div'') (Some (asc ''seiza-box'')) dt))"
    and zid: "get box (asc ''id'') = Some (asc ''ousi'')"
    and narrative: "find_tag (asc ''div'') (Some (asc ''read-area'')) box = Some ra"
      "find_tag (asc ''p'') (Some (asc ''read'')) ra = Some p"
      "get_text_strip p = asc ''test message''"
    and score: "find_tag (asc ''div'') (Some (asc ''number-one-box'')) box = Some sc"
      "count_star sc (asc ''lucky-money'') = 2" "count_star sc (asc ''lucky-love'') = 0"
      "count_star sc (asc ''lucky-work'') = 0" "count_star sc (asc ''lucky-health'') = 0"
  shows "\<exists>rows. parse_zodiac soup = Inr rows \<and>
           (\<exists>z \<in> set rows. z_rank z = 1 \<and> z_sign z = Some kr_taurus \<and>
              z_link z = Some (BASE_URL @ asc ''#ousi'') \<and>
              z_narrative z = Some (asc ''test message'') \<and>
              z_money z = Some 2 \<and> z_love z = Some 0 \<and> z_work z = Some 0 \<and> z_health z = Some 0)"
proof -
  let ?r = "\<lparr>r_rank = 1, r_sign_jp = Some jp_taurus, r_sign_kr = Some kr_taurus\<rparr>"
  let ?d = "detail_row_of box"
  have kr: "dict_get jp_to_kr (Some jp_taurus) = Some kr_taurus"
    by (simp add: dict_get_def jp_to_kr_eq sign_names)
  have r: "?r \<in> set (ranking_rows rb)"
    using ranking_rows_first [OF items label(1)] by (simp add: label(2) kr)
  have d: "?d \<in> set (detail_rows dt)"
    using box by (simp add: detail_rows_def)
  have sign: "d_sign ?d = Some kr_taurus"
    by (simp add: detail_row_of_def Let_def zid zodiak_eng_ids)
  have link: "d_link ?d = BASE_URL @ asc ''#ousi''"
    by (simp add: detail_row_of_def Let_def zid) (simp add: asc_def)
  have rest: "d_narrative ?d = asc ''test message''" "d_money ?d = 2" "d_love ?d = 0"
    "d_work ?d = 0" "d_health ?d = 0"
    by (simp_all add: detail_row_of_def Let_def narrative score)
  from r d sign obtain rows where rows: "merge_left (ranking_rows rb) (detail_rows dt) = Inr rows"
    "matched ?r ?d \<in> set rows"
    using merge_left_matched [of ?r "ranking_rows rb" ?d "detail_rows dt"] by auto
  have "parse_zodiac soup = Inr rows"
    by (simp add: parse_zodiac_found [OF rb dt] rows(1))
  moreover have "z_rank (matched ?r ?d) = 1 \<and> z_sign (matched ?r ?d) = Some kr_taurus \<and>
      z_link (matched ?r ?d) = Some (BASE_URL @ asc ''#ousi'') \<and>
      z_narrative (matched ?r ?d) = Some (asc ''test message'') \<and>
      z_money (matched ?r ?d) = Some 2 \<and> z_love (matched ?r ?d) = Some 0 \<and>
      z_work (matched ?r ?d) = Some 0 \<and> z_health (matched ?r ?d) = Some 0"
    by (simp add: matched_def link rest)
  ultimately show ?thesis using rows(2) by blast
qed

text \<open>The fixture of the scenario: the twelve signs ranked with Taurus first, and the one
  detail block of Taurus.\<close>

theorem parse_zodiac_taurus_row_witness:
  "\<exists>rows. parse_zodiac (page twelve_items [seiza_box ''ousi'' (asc ''test message'') 2 0 0 0]) = Inr rows \<and>
           (\<exists>z \<in> set rows. z_rank z = 1 \<and> z_sign z = Some kr_taurus \<and>
              z_link z = Some (BASE_URL @ asc ''#ousi'') \<and>
              z_narrative z = Some (asc ''test message'') \<and>
              z_money z = Some 2 \<and> z_love z = Some 0 \<and> z_work z = Some 0 \<and> z_health z = Some 0)"
proof (rule parse_zodiac_taurus_row)
  let ?box = "seiza_box ''ousi'' (asc ''test message'') 2 0 0 0"
  show "find_tag (asc ''ul'') (Some (asc ''rank-box'')) (page twelve_items [?box]) =
     Some (el ''ul'' ''rank-box'' twelve_items)"
    by (rule page_rank_box)
  show "find_tag (asc ''div'') (Some (asc ''seiza-area'')) (page twelve_items [?box]) =
     Some (el ''div'' ''seiza-area'' [?box])"
    unfolding twelve_items_def by (rule page_seiza_area)
  show "find_all (asc ''li'') None (el ''ul'' ''rank-box'' twelve_items) =
      rank_item jp_taurus # map rank_item [jp_aries, jp_gemini, jp_cancer, jp_leo, jp_virgo, jp_libra,
        jp_scorpio, jp_sagittarius, jp_capricorn, jp_aquarius, jp_pisces]"
    unfolding twelve_items_def find_all_rank_items by simp
  show "find_tag (asc ''span'') None (rank_item jp_taurus) = Some (Tag (asc ''span'') [] [NavigableString jp_taurus])"
    by (rule rank_item_name)
  show "get_text_strip (Tag (asc ''span'') [] [NavigableString jp_taurus]) = jp_taurus"
    by (simp add: rank_item_name strip_def is_space_def jp_taurus_def)
  have "find_all (asc ''div'') (Some (asc ''seiza-box'')) (el ''div'' ''seiza-area'' [?box]) = [?box]"
    by (rule find_all_seiza_boxes) (simp, blast)
  then show "?box \<in> set (take 12 (find_all (asc ''div'') (Some (asc ''seiza-box'')) (el ''div'' ''seiza-area'' [?box])))"
    by simp
  show "get ?box (asc ''id'') = Some (asc ''ousi'')"
    by (rule seiza_box_parts)
  show "find_tag (asc ''div'') (Some (asc ''read-area'')) ?box =
     Some (el ''div'' ''read-area'' [el ''p'' ''read'' [NavigableString (asc ''test message'')]])"
    by (rule seiza_box_parts)
  show "find_tag (asc ''p'') (Some (asc ''read'')) (el ''div'' ''read-area'' [el ''p'' ''read'' [NavigableString (asc ''test message'')]]) =
     Some (el ''p'' ''read'' [NavigableString (asc ''test message'')])"
    by (rule seiza_box_parts)
  show "get_text_strip (el ''p'' ''read'' [NavigableString (asc ''test message'')]) = asc ''test message''"
    by (simp add: seiza_box_parts strip_def is_space_def asc_def)
  show "find_tag (asc ''div'') (Some (asc ''number-one-box'')) ?box = Some (score_box 2 0 0 0)"
    by (rule seiza_box_parts)
  show "count_star (score_box 2 0 0 0) (asc ''lucky-money'') = 2"
    "count_star (score_box 2 0 0 0) (asc ''lucky-love'') = 0"
    "count_star (score_box 2 0 0 0) (asc ''lucky-work'') = 0"
    "count_star (score_box 2 0 0 0) (asc ''lucky-health'') = 0"
    by (rule count_star_score_box)+
qed

text \<open>
  C3. When the page has both containers, exactly 12 ranking items and exactly 12 detail
  blocks, every ranking name resolves, and the resolved names of the two passes match one
  to one (the detail names are pairwise distinct and are the same names as the ranking
  names), \<^verbatim>\<open>parse_zodiac\<close> returns exactly 12 rows, their ranks are 1 to 12 in order, and no
  row has a missing detail field.
\<close>

theorem parse_zodiac_twelve_rows:
  assumes rb: "find_tag (asc ''ul'') (Some (asc ''rank-box'')) soup = Some rb"
    and dt: "find_tag (asc ''div'') (Some (asc ''seiza-area'')) soup = Some dt"
    and lis: "length (find_all (asc ''li'') None rb) = 12"
    and boxes: "length (find_all (asc ''div'') (Some (asc ''seiza-box'')) dt) = 12"
    and resolved: "None \<notin> set (map r_sign_kr (ranking_rows rb))"
    and dist: "distinct (map d_sign (detail_rows dt))"
    and same: "set (map r_sign_kr (ranking_rows rb)) = set (map d_sign (detail_rows dt))"
  shows "\<exists>rows. parse_zodiac soup = Inr rows \<and> length rows = 12 \<and> map z_rank rows = [1..<13] \<and>
           (\<forall>z \<in> set rows. no_null_detail z \<and> z_sign z \<noteq> None)"
proof -
  let ?rs = "ranking_rows rb" and ?ds = "detail_rows dt"
  let ?rows = "concat (map (join_row ?ds) ?rs)"
  have lr: "length ?rs = 12" using lis by (simp add: length_ranking_rows)
  have ld: "length ?ds = 12" using boxes by (simp add: length_detail_rows)
  from lr ld have "?rs \<noteq> []" "?ds \<noteq> []" by auto
  then have p: "parse_zodiac soup = Inr ?rows"
    by (simp add: parse_zodiac_found [OF rb dt] merge_left_def)
  have len: "length ?rows = 12"
    using dist lr by (simp add: length_concat_join)
  have "map z_rank ?rows = map r_rank ?rs"
    using dist by (rule rank_concat_join)
  then have rk: "map z_rank ?rows = [1..<13]"
    using lr by (simp add: rank_ranking_rows)
  have "no_null_detail z \<and> z_sign z \<noteq> None" if "z \<in> set ?rows" for z
  proof -
    from that obtain r where r: "r \<in> set ?rs" "z \<in> set (join_row ?ds r)" by auto
    from r(1) same have "r_sign_kr r \<in> d_sign ` set ?ds" by auto
    with dist obtain d where "join_row ?ds r = [matched r d]"
      using join_row_single by blast
    with r(2) have z: "z = matched r d" by simp
    from r(1) resolved have "r_sign_kr r \<noteq> None" by force
    with z show ?thesis by (simp add: matched_no_null) (simp add: matched_def)
  qed
  with p len rk show ?thesis by blast
qed

theorem parse_zodiac_twelve_rows_witness:
  "find_tag (asc ''ul'') (Some (asc ''rank-box'')) (page twelve_items twelve_boxes) =
     Some (el ''ul'' ''rank-box'' twelve_items) \<and>
   find_tag (asc ''div'') (Some (asc ''seiza-area'')) (page twelve_items twelve_boxes) =
     Some (el ''div'' ''seiza-area'' twelve_boxes) \<and>
   length (find_all (asc ''li'') None (el ''ul'' ''rank-box'' twelve_items)) = 12 \<and>
   length (find_all (asc ''div'') (Some (asc ''seiza-box'')) (el ''div'' ''seiza-area'' twelve_boxes)) = 12 \<and>
   None \<notin> set (map r_sign_kr (ranking_rows (el ''ul'' ''rank-box'' twelve_items))) \<and>
   distinct (map d_sign (detail_rows (el ''div'' ''seiza-area'' twelve_boxes))) \<and>
   set (map r_sign_kr (ranking_rows (el ''ul'' ''rank-box'' twelve_items))) =
     set (map d_sign (detail_rows (el ''div'' ''seiza-area'' twelve_boxes))) \<and>
   (\<exists>rows. parse_zodiac (page twelve_items twelve_boxes) = Inr rows \<and> length rows = 12 \<and>
      map z_rank rows = [1..<13] \<and> (\<forall>z \<in> set rows. no_null_detail z \<and> z_sign z \<noteq> None))"
proof -
  have rb: "find_tag (asc ''ul'') (Some (asc ''rank-box'')) (page twelve_items twelve_boxes) =
     Some (el ''ul'' ''rank-box'' twelve_items)"
    by (rule page_rank_box)
  have dt: "find_tag (asc ''div'') (Some (asc ''seiza-area'')) (page twelve_items twelve_boxes) =
     Some (el ''div'' ''seiza-area'' twelve_boxes)"
    unfolding twelve_items_def by (rule page_seiza_area)
  have lis: "length (find_all (asc ''li'') None (el ''ul'' ''rank-box'' twelve_items)) = 12"
    unfolding twelve_items_def find_all_rank_items by simp
  have "find_all (asc ''div'') (Some (asc ''seiza-box'')) (el ''div'' ''seiza-area'' twelve_boxes) = twelve_boxes"
    by (rule find_all_seiza_boxes) (auto simp: twelve_boxes_def, blast+)
  then have boxes: "length (find_all (asc ''div'') (Some (asc ''seiza-box'')) (el ''div'' ''seiza-area'' twelve_boxes)) = 12"
    by (simp add: twelve_boxes_def)
  have resolved: "None \<notin> set (map r_sign_kr (ranking_rows (el ''ul'' ''rank-box'' twelve_items)))"
    by (simp add: twelve_ranking_rows)
  have dist: "distinct (map d_sign (detail_rows (el ''div'' ''seiza-area'' twelve_boxes)))"
    by (simp add: twelve_detail_signs sign_names)
  have same: "set (map r_sign_kr (ranking_rows (el ''ul'' ''rank-box'' twelve_items))) =
     set (map d_sign (detail_rows (el ''div'' ''seiza-area'' twelve_boxes)))"
    by (simp add: twelve_ranking_rows twelve_detail_signs insert_commute)
  from parse_zodiac_twelve_rows [OF rb dt lis boxes resolved dist same] rb dt lis boxes resolved dist same
  show ?thesis by blast
qed

lemma ranking_rows_take:
  "take 12 (find_all (asc ''li'') None rb') = take 12 (find_all (asc ''li'') None rb) \<Longrightarrow>
   ranking_rows rb' = ranking_rows rb"
  by (simp add: ranking_rows_def)

lemma detail_rows_take:
  "take 12 (find_all (asc ''div'') (Some (asc ''seiza-box'')) dt') =
     take 12 (find_all (asc ''div'') (Some (asc ''seiza-box'')) dt) \<Longrightarrow>
   detail_rows dt' = detail_rows dt"
  by (simp add: detail_rows_def)

lemma jp_ranking_rows:
  "map r_sign_jp (ranking_rows rb) =
     map (\<lambda>li. map_option get_text_strip (find_tag (asc ''span'') None li))
       (take 12 (find_all (asc ''li'') None rb))"
proof -
  have "map (\<lambda>(i, li). f li) (enumerate n xs) = map f xs" for f :: "node \<Rightarrow> ustring option" and n xs
    by (induction xs arbitrary: n) simp_all
  then show ?thesis
    by (simp add: ranking_rows_def Let_def case_prod_unfold comp_def map_option_case)
qed

lemma thirteen_page:
  "find_tag (asc ''ul'') (Some (asc ''rank-box'')) (page thirteen_items bs) =
     Some (el ''ul'' ''rank-box'' thirteen_items)"
  "find_tag (asc ''div'') (Some (asc ''seiza-area'')) (page thirteen_items bs) =
     Some (el ''div'' ''seiza-area'' bs)"
  unfolding thirteen_items_def by (rule page_rank_box, rule page_seiza_area)

lemma thirteen_found:
  "find_all (asc ''li'') None (el ''ul'' ''rank-box'' thirteen_items) = thirteen_items"
  "find_all (asc ''li'') None (el ''ul'' ''rank-box'' twelve_items) = twelve_items"
  "find_all (asc ''div'') (Some (asc ''seiza-box'')) (el ''div'' ''seiza-area'' thirteen_boxes) = thirteen_boxes"
  "find_all (asc ''div'') (Some (asc ''seiza-box'')) (el ''div'' ''seiza-area'' twelve_boxes) = twelve_boxes"
proof -
  show "find_all (asc ''li'') None (el ''ul'' ''rank-box'' thirteen_items) = thirteen_items"
    unfolding thirteen_items_def by (rule find_all_rank_items)
  show "find_all (asc ''li'') None (el ''ul'' ''rank-box'' twelve_items) = twelve_items"
    unfolding twelve_items_def by (rule find_all_rank_items)
  show "find_all (asc ''div'') (Some (asc ''seiza-box'')) (el ''div'' ''seiza-area'' thirteen_boxes) = thirteen_boxes"
    by (rule find_all_seiza_boxes) (auto simp: thirteen_boxes_def, blast+)
  show "find_all (asc ''div'') (Some (asc ''seiza-box'')) (el ''div'' ''seiza-area'' twelve_boxes) = twelve_boxes"
    by (rule find_all_seiza_boxes) (auto simp: twelve_boxes_def, blast+)
qed

lemma thirteen_take:
  "take 12 thirteen_items = twelve_items" "take 12 twelve_items = twelve_items"
  "take 12 thirteen_boxes = twelve_boxes" "take 12 twelve_boxes = twelve_boxes"
  by (simp_all add: thirteen_items_def twelve_items_def thirteen_boxes_def twelve_boxes_def)

lemma thirteen_rows:
  "ranking_rows (el ''ul'' ''rank-box'' thirteen_items) = ranking_rows (el ''ul'' ''rank-box'' twelve_items)"
  "detail_rows (el ''div'' ''seiza-area'' thirteen_boxes) = detail_rows (el ''div'' ''seiza-area'' twelve_boxes)"
  by (rule ranking_rows_take, simp only: thirteen_found thirteen_take,
      rule detail_rows_take, simp only: thirteen_found thirteen_take)

lemma thirteen_page_rows:
  "parse_zodiac (page thirteen_items thirteen_boxes) = parse_zodiac (page twelve_items twelve_boxes)"
  by (simp only: parse_zodiac_found [OF thirteen_page] parse_zodiac_found [OF twelve_page] thirteen_rows)

text \<open>
  C5, as the code has it. Each pass processes the first 12 entries of its container and
  no others: the ranking rows are numbered from 1 and carry the names of the first 12
  items and what \<^verbatim>\<open>jp_to_kr\<close> gives for them, the detail rows are those of the first 12 blocks, the output is the left join of
  these rows, and a page that agrees on the first 12 entries of both containers gives the
  same output. When the names of the processed detail blocks are pairwise distinct, the
  output has one row per processed ranking item, hence at most 12 rows. In general a
  ranking item is repeated once for every detail block of its name, and the output has at
  most 144 rows.
\<close>

theorem parse_zodiac_length:
  assumes "parse_zodiac soup = Inr rows"
  shows "\<exists>rb dt.
           find_tag (asc ''ul'') (Some (asc ''rank-box'')) soup = Some rb \<and>
           find_tag (asc ''div'') (Some (asc ''seiza-area'')) soup = Some dt \<and>
           map r_rank (ranking_rows rb) =
             [1..<Suc (min (length (find_all (asc ''li'') None rb)) 12)] \<and>
           map r_sign_jp (ranking_rows rb) =
             map (\<lambda>li. map_option get_text_strip (find_tag (asc ''span'') None li))
               (take 12 (find_all (asc ''li'') None rb)) \<and>
           map r_sign_kr (ranking_rows rb) =
             map (dict_get jp_to_kr) (map r_sign_jp (ranking_rows rb)) \<and>
           detail_rows dt =
             map detail_row_of (take 12 (find_all (asc ''div'') (Some (asc ''seiza-box'')) dt)) \<and>
           rows = concat (map (join_row (detail_rows dt)) (ranking_rows rb)) \<and>
           (\<forall>soup' rb' dt'.
              find_tag (asc ''ul'') (Some (asc ''rank-box'')) soup' = Some rb' \<and>
              find_tag (asc ''div'') (Some (asc ''seiza-area'')) soup' = Some dt' \<and>
              take 12 (find_all (asc ''li'') None rb') = take 12 (find_all (asc ''li'') None rb) \<and>
              take 12 (find_all (asc ''div'') (Some (asc ''seiza-box'')) dt') =
                take 12 (find_all (asc ''div'') (Some (asc ''seiza-box'')) dt) \<longrightarrow>
              parse_zodiac soup' = Inr rows) \<and>
           (distinct (map d_sign (detail_rows dt)) \<longrightarrow>
              length rows = min (length (find_all (asc ''li'') None rb)) 12 \<and> length rows \<le> 12) \<and>
           length rows \<le> 144"
proof -
  from assms obtain rb dt where
    rb: "find_tag (asc ''ul'') (Some (asc ''rank-box'')) soup = Some rb" and
    dt: "find_tag (asc ''div'') (Some (asc ''seiza-area'')) soup = Some dt" and
    rows: "rows = concat (map (join_row (detail_rows dt)) (ranking_rows rb))"
    by (rule parse_zodiac_InrD)
  let ?rs = "ranking_rows rb" and ?ds = "detail_rows dt"
  have lr: "length ?rs = min (length (find_all (asc ''li'') None rb)) 12"
    by (rule length_ranking_rows)
  have ld: "length ?ds = min (length (find_all (asc ''div'') (Some (asc ''seiza-box'')) dt)) 12"
    by (rule length_detail_rows)
  have rk: "map r_rank ?rs = [1..<Suc (min (length (find_all (asc ''li'') None rb)) 12)]"
    using rank_ranking_rows [of rb] lr by simp
  have jp: "map r_sign_jp ?rs =
             map (\<lambda>li. map_option get_text_strip (find_tag (asc ''span'') None li))
               (take 12 (find_all (asc ''li'') None rb))"
    by (rule jp_ranking_rows)
  have kr: "map r_sign_kr ?rs = map (dict_get jp_to_kr) (map r_sign_jp ?rs)"
    by (simp add: ranking_row_kr)
  have ds: "?ds = map detail_row_of (take 12 (find_all (asc ''div'') (Some (asc ''seiza-box'')) dt))"
    by (simp add: detail_rows_def)
  have same: "parse_zodiac soup' = Inr rows"
    if "find_tag (asc ''ul'') (Some (asc ''rank-box'')) soup' = Some rb' \<and>
        find_tag (asc ''div'') (Some (asc ''seiza-area'')) soup' = Some dt' \<and>
        take 12 (find_all (asc ''li'') None rb') = take 12 (find_all (asc ''li'') None rb) \<and>
        take 12 (find_all (asc ''div'') (Some (asc ''seiza-box'')) dt') =
          take 12 (find_all (asc ''div'') (Some (asc ''seiza-box'')) dt)" for soup' rb' dt'
  proof -
    from that have "ranking_rows rb' = ?rs"
      by (intro ranking_rows_take) simp
    moreover from that have "detail_rows dt' = ?ds"
      by (intro detail_rows_take) simp
    moreover from that have "parse_zodiac soup' = merge_left (ranking_rows rb') (detail_rows dt')"
      by (intro parse_zodiac_found) simp_all
    ultimately have "parse_zodiac soup' = merge_left ?rs ?ds"
      by simp
    also have "\<dots> = parse_zodiac soup"
      by (simp add: parse_zodiac_found [OF rb dt])
    finally show ?thesis using assms by simp
  qed
  have one: "length rows = min (length (find_all (asc ''li'') None rb)) 12 \<and> length rows \<le> 12"
    if "distinct (map d_sign ?ds)"
    using that lr by (simp add: rows length_concat_join)
  have "length rows \<le> length ?rs * max 1 (length ?ds)"
    unfolding rows by (rule length_concat_bound)
  also have "\<dots> \<le> 12 * 12"
    using lr ld by (intro mult_mono) simp_all
  finally have all: "length rows \<le> 144" by simp
  show ?thesis
  proof (intro exI conjI)
    show "find_tag (asc ''ul'') (Some (asc ''rank-box'')) soup = Some rb" by (rule rb)
    show "find_tag (asc ''div'') (Some (asc ''seiza-area'')) soup = Some dt" by (rule dt)
    show "map r_rank ?rs = [1..<Suc (min (length (find_all (asc ''li'') None rb)) 12)]"
      by (rule rk)
    show "map r_sign_jp ?rs =
             map (\<lambda>li. map_option get_text_strip (find_tag (asc ''span'') None li))
               (take 12 (find_all (asc ''li'') None rb))"
      by (rule jp)
    show "map r_sign_kr ?rs = map (dict_get jp_to_kr) (map r_sign_jp ?rs)"
      by (rule kr)
    show "?ds = map detail_row_of (take 12 (find_all (asc ''div'') (Some (asc ''seiza-box'')) dt))"
      by (rule ds)
    show "rows = concat (map (join_row ?ds) ?rs)" by (rule rows)
    show "\<forall>soup' rb' dt'.
              find_tag (asc ''ul'') (Some (asc ''rank-box'')) soup' = Some rb' \<and>
              find_tag (asc ''div'') (Some (asc ''seiza-area'')) soup' = Some dt' \<and>
              take 12 (find_all (asc ''li'') None rb') = take 12 (find_all (asc ''li'') None rb) \<and>
              take 12 (find_all (asc ''div'') (Some (asc ''seiza-box'')) dt') =
                take 12 (find_all (asc ''div'') (Some (asc ''seiza-box'')) dt) \<longrightarrow>
              parse_zodiac soup' = Inr rows"
      by (intro allI impI) (rule same)
    show "distinct (map d_sign ?ds) \<longrightarrow>
              length rows = min (length (find_all (asc ''li'') None rb)) 12 \<and> length rows \<le> 12"
      by (intro impI) (rule one)
    show "length rows \<le> 144" by (rule all)
  qed
qed

text \<open>A page with thirteen ranking items and thirteen detail blocks, the thirteenth block
  repeating the id of Taurus: the extras are dropped, the output has 12 rows and is the
  output of the page with the first twelve items and blocks only.\<close>

theorem parse_zodiac_length_witness:
  "\<exists>rows. parse_zodiac (page thirteen_items thirteen_boxes) = Inr rows \<and>
     length (find_all (asc ''li'') None (el ''ul'' ''rank-box'' thirteen_items)) = 13 \<and>
     length (find_all (asc ''div'') (Some (asc ''seiza-box'')) (el ''div'' ''seiza-area'' thirteen_boxes)) = 13 \<and>
     distinct (map d_sign (detail_rows (el ''div'' ''seiza-area'' thirteen_boxes))) \<and>
     length rows = 12 \<and>
     parse_zodiac (page twelve_items twelve_boxes) = Inr rows"
proof -
  obtain rows where rows: "parse_zodiac (page thirteen_items thirteen_boxes) = Inr rows"
    using twelve_page_rows thirteen_page_rows by simp
  have l: "length (find_all (asc ''li'') None (el ''ul'' ''rank-box'' thirteen_items)) = 13"
    "length (find_all (asc ''div'') (Some (asc ''seiza-box'')) (el ''div'' ''seiza-area'' thirteen_boxes)) = 13"
    by (simp_all only: thirteen_found) (simp_all add: thirteen_items_def thirteen_boxes_def)
  have dist: "distinct (map d_sign (detail_rows (el ''div'' ''seiza-area'' thirteen_boxes)))"
    by (simp add: thirteen_rows twelve_detail_signs sign_names)
  have t: "take 12 (find_all (asc ''li'') None (el ''ul'' ''rank-box'' twelve_items)) =
        take 12 (find_all (asc ''li'') None (el ''ul'' ''rank-box'' thirteen_items))"
    "take 12 (find_all (asc ''div'') (Some (asc ''seiza-box'')) (el ''div'' ''seiza-area'' twelve_boxes)) =
        take 12 (find_all (asc ''div'') (Some (asc ''seiza-box'')) (el ''div'' ''seiza-area'' thirteen_boxes))"
    by (simp_all only: thirteen_found thirteen_take)
  from parse_zodiac_length [OF rows] obtain rb dt where
    rb: "find_tag (asc ''ul'') (Some (asc ''rank-box'')) (page thirteen_items thirteen_boxes) = Some rb" and
    dt: "find_tag (asc ''div'') (Some (asc ''seiza-area'')) (page thirteen_items thirteen_boxes) = Some dt" and
    same: "\<forall>soup' rb' dt'.
              find_tag (asc ''ul'') (Some (asc ''rank-box'')) soup' = Some rb' \<and>
              find_tag (asc ''div'') (Some (asc ''seiza-area'')) soup' = Some dt' \<and>
              take 12 (find_all (asc ''li'') None rb') = take 12 (find_all (asc ''li'') None rb) \<and>
              take 12 (find_all (asc ''div'') (Some (asc ''seiza-box'')) dt') =
                take 12 (find_all (asc ''div'') (Some (asc ''seiza-box'')) dt) \<longrightarrow>
              parse_zodiac soup' = Inr rows" and
    len: "distinct (map d_sign (detail_rows dt)) \<longrightarrow>
              length rows = min (length (find_all (asc ''li'') None rb)) 12 \<and> length rows \<le> 12"
    by (elim exE conjE)
  from rb dt have eq: "rb = el ''ul'' ''rank-box'' thirteen_items" "dt = el ''div'' ''seiza-area'' thirteen_boxes"
    by (simp_all add: thirteen_page)
  from len dist l have n: "length rows = 12"
    by (simp add: eq)
  have "parse_zodiac (page twelve_items twelve_boxes) = Inr rows"
    using same twelve_page [of twelve_boxes] t unfolding eq by blast
  with rows l dist n show ?thesis by blast
qed

text \<open>The twelve ranked signs and a detail container in which the block of Taurus appears
  twice: the output has 13 rows.\<close>

theorem parse_zodiac_length_counterexample:
  "map_sum id length
     (parse_zodiac (page twelve_items
        [seiza_box ''ousi'' (asc ''test message'') 2 0 0 0,
         seiza_box ''ousi'' (asc ''test message'') 2 0 0 0])) = Inr 13"
proof -
  let ?b = "seiza_box ''ousi'' (asc ''test message'') 2 0 0 0"
  note rb = twelve_page(1) [of "[?b, ?b]"] and dt = twelve_page(2) [of "[?b, ?b]"]
  have "find_all (asc ''div'') (Some (asc ''seiza-box'')) (el ''div'' ''seiza-area'' [?b, ?b]) = [?b, ?b]"
    by (rule find_all_seiza_boxes) (simp, blast)
  then have ds: "map d_sign (detail_rows (el ''div'' ''seiza-area'' [?b, ?b])) = [Some kr_taurus, Some kr_taurus]"
    by (simp add: detail_rows_def detail_row_of_seiza_box zodiak_eng_ids)
  then obtain d1 d2 where d: "detail_rows (el ''div'' ''seiza-area'' [?b, ?b]) = [d1, d2]"
    "d_sign d1 = Some kr_taurus" "d_sign d2 = Some kr_taurus"
    by auto
  show ?thesis
    by (simp add: parse_zodiac_found [OF rb dt] merge_left_def twelve_ranking_rows d join_row_def sign_names)
qed

text \<open>
  C6, as the code has it. A ranking item (among the first 12) whose label is not a key of
  \<^verbatim>\<open>jp_to_kr\<close> still has a row in the output when the detail pass finds at least one block and
  every block it processes has an id that resolves: the row carries the rank, a missing
  sign name and missing detail cells. The Japanese name of the ranking pass is not a
  column of the output.
\<close>

theorem unresolved_ranking_row:
  assumes rb: "find_tag (asc ''ul'') (Some (asc ''rank-box'')) soup = Some rb"
    and dt: "find_tag (asc ''div'') (Some (asc ''seiza-area'')) soup = Some dt"
    and r: "r \<in> set (ranking_rows rb)"
    and unresolved: "dict_get jp_to_kr (r_sign_jp r) = None"
    and blocks: "detail_rows dt \<noteq> []"
    and ids: "None \<notin> d_sign ` set (detail_rows dt)"
  shows "\<exists>rows. parse_zodiac soup = Inr rows \<and>
           (\<exists>z \<in> set rows. z_rank z = r_rank r \<and> z_sign z = None \<and> z_link z = None \<and>
              z_narrative z = None \<and> z_lucky_color z = None \<and> z_lucky_item z = None \<and>
              z_money z = None \<and> z_love z = None \<and> z_work z = None \<and> z_health z = None)"
proof -
  let ?rs = "ranking_rows rb" and ?ds = "detail_rows dt"
  from r unresolved have kr: "r_sign_kr r = None"
    by (simp add: ranking_row_kr)
  with ids have "join_row ?ds r = [unmatched r]"
    by (simp add: join_row_unmatched)
  with r have "unmatched r \<in> set (concat (map (join_row ?ds) ?rs))"
    by force
  moreover from r have "?rs \<noteq> []" by auto
  then have "parse_zodiac soup = Inr (concat (map (join_row ?ds) ?rs))"
    using blocks by (simp add: parse_zodiac_found [OF rb dt] merge_left_def)
  moreover have "z_rank (unmatched r) = r_rank r \<and> z_sign (unmatched r) = None \<and>
      z_link (unmatched r) = None \<and> z_narrative (unmatched r) = None \<and>
      z_lucky_color (unmatched r) = None \<and> z_lucky_item (unmatched r) = None \<and>
      z_money (unmatched r) = None \<and> z_love (unmatched r) = None \<and>
      z_work (unmatched r) = None \<and> z_health (unmatched r) = None"
    by (simp add: unmatched_def kr)
  ultimately show ?thesis by blast
qed

text \<open>A ranking item with the unknown label \<^verbatim>\<open>Taurus\<close> beside the detail block of Taurus.\<close>

theorem unresolved_ranking_row_witness:
  "\<exists>rows. parse_zodiac (page [rank_item (asc ''Taurus'')] [seiza_box ''ousi'' (asc ''test message'') 2 0 0 0]) = Inr rows \<and>
           (\<exists>z \<in> set rows. z_rank z = 1 \<and> z_sign z = None \<and> z_link z = None \<and>
              z_narrative z = None \<and> z_lucky_color z = None \<and> z_lucky_item z = None \<and>
              z_money z = None \<and> z_love z = None \<and> z_work z = None \<and> z_health z = None)"
proof -
  let ?r = "\<lparr>r_rank = 1, r_sign_jp = Some (asc ''Taurus''), r_sign_kr = None\<rparr>"
  let ?b = "seiza_box ''ousi'' (asc ''test message'') 2 0 0 0"
  have r: "?r \<in> set (ranking_rows (el ''ul'' ''rank-box'' [rank_item (asc ''Taurus'')]))"
    by (simp add: one_item_ranking_rows)
  have u: "dict_get jp_to_kr (r_sign_jp ?r) = None"
    by (simp add: asc_def dict_get_def jp_to_kr_eq sign_names)
  have b: "detail_rows (el ''div'' ''seiza-area'' [?b]) \<noteq> []"
    by (simp add: one_box_detail_rows)
  have i: "None \<notin> d_sign ` set (detail_rows (el ''div'' ''seiza-area'' [?b]))"
    by (simp add: one_box_detail_rows detail_row_of_seiza_box zodiak_eng_ids)
  from unresolved_ranking_row [OF one_item_box_page r u b i] show ?thesis
    by simp
qed

text \<open>The same ranking item beside a detail block whose id \<^verbatim>\<open>taurus\<close> does not resolve
  either: the two missing names are joined, and the only row of the output carries the
  narrative, the link and the score of that block.\<close>

theorem unresolved_ranking_row_counterexample:
  "parse_zodiac (page [rank_item (asc ''Taurus'')] [seiza_box ''taurus'' (asc ''hello'') 1 0 0 0]) =
     Inr [\<lparr>z_rank = 1, z_sign = None, z_link = Some (BASE_URL @ asc ''#taurus''),
           z_narrative = Some (asc ''hello''), z_lucky_color = Some [], z_lucky_item = Some [],
           z_money = Some 1, z_love = Some 0, z_work = Some 0, z_health = Some 0\<rparr>] \<and>
   map_sum id (map blank_detail)
     (parse_zodiac (page [rank_item (asc ''Taurus'')] [seiza_box ''taurus'' (asc ''hello'') 1 0 0 0])) =
     Inr [False]"
proof -
  let ?b = "seiza_box ''taurus'' (asc ''hello'') 1 0 0 0"
  have s: "dict_get zodiak_eng (Some (asc ''taurus'')) = None"
    by (simp add: dict_get_def zodiak_eng_def asc_def)
  have t: "strip (asc ''hello'') = asc ''hello''" "asc ''hello'' \<noteq> []"
    "asc ''#'' @ asc ''taurus'' = asc ''#taurus''"
    by (simp_all add: strip_def is_space_def asc_def)
  have "parse_zodiac (page [rank_item (asc ''Taurus'')] [?b]) =
     Inr [\<lparr>z_rank = 1, z_sign = None, z_link = Some (BASE_URL @ asc ''#taurus''),
           z_narrative = Some (asc ''hello''), z_lucky_color = Some [], z_lucky_item = Some [],
           z_money = Some 1, z_love = Some 0, z_work = Some 0, z_health = Some 0\<rparr>]"
    by (simp add: parse_zodiac_found [OF one_item_box_page] merge_left_def one_item_ranking_rows
        one_box_detail_rows detail_row_of_seiza_box s t join_row_def matched_def)
  then show ?thesis
    by (simp add: blank_detail_def t)
qed

text \<open>
  C8, as the code has it. The link of a detail row is \<^verbatim>\<open>BASE_URL\<close>, \<^verbatim>\<open>#\<close> and the id of the
  block when the block has a non-empty id, and the empty string when the id is absent or
  empty. It is computed from the attributes of the block alone: two blocks that differ
  only in their contents (where an anchor element would be) have the same link.
\<close>

theorem detail_link:
  "(\<forall>z. get box (asc ''id'') = Some z \<and> z \<noteq> [] \<longrightarrow>
        d_link (detail_row_of box) = BASE_URL @ asc ''#'' @ z) \<and>
   (get box (asc ''id'') = None \<or> get box (asc ''id'') = Some [] \<longrightarrow>
        d_link (detail_row_of box) = []) \<and>
   d_link (detail_row_of (Tag n a cs)) = d_link (detail_row_of (Tag n a cs'))"
  by (auto simp: detail_row_of_def Let_def get_def)

theorem detail_link_witness:
  "get (seiza_box ''ousi'' (asc ''test message'') 2 0 0 0) (asc ''id'') = Some (asc ''ousi'') \<and>
   asc ''ousi'' \<noteq> [] \<and>
   d_link (detail_row_of (seiza_box ''ousi'' (asc ''test message'') 2 0 0 0)) =
     BASE_URL @ asc ''#'' @ asc ''ousi'' \<and>
   get (rank_item jp_taurus) (asc ''id'') = None \<and>
   d_link (detail_row_of (rank_item jp_taurus)) = []"
proof -
  have a: "get (seiza_box ''ousi'' (asc ''test message'') 2 0 0 0) (asc ''id'') = Some (asc ''ousi'')"
    by (rule seiza_box_parts)
  have b: "asc ''ousi'' \<noteq> []"
    by (simp add: asc_def)
  have c: "get (rank_item jp_taurus) (asc ''id'') = None"
    by (simp add: get_def rank_item_def)
  from detail_link [of "seiza_box ''ousi'' (asc ''test message'') 2 0 0 0"] a b
  have d: "d_link (detail_row_of (seiza_box ''ousi'' (asc ''test message'') 2 0 0 0)) =
     BASE_URL @ asc ''#'' @ asc ''ousi''"
    by blast
  from detail_link [of "rank_item jp_taurus"] c
  have e: "d_link (detail_row_of (rank_item jp_taurus)) = []"
    by blast
  from a b c d e show ?thesis by blast
qed

text \<open>A block whose id attribute is present and empty: the link is the empty string, not
  \<^verbatim>\<open>BASE_URL\<close> followed by \<^verbatim>\<open>#\<close>.\<close>

theorem detail_link_counterexample:
  "get (seiza_box [] (asc ''test message'') 2 0 0 0) (asc ''id'') = Some [] \<and>
   d_link (detail_row_of (seiza_box [] (asc ''test message'') 2 0 0 0)) = [] \<and>
   d_link (detail_row_of (seiza_box [] (asc ''test message'') 2 0 0 0)) \<noteq> BASE_URL @ asc ''#'' @ []"
  using seiza_box_parts(1) [of "[]"] by (simp add: detail_row_of_seiza_box) (simp add: asc_def)

section \<open>The label rule\<close>

lemma text_after_label_colon_value:
  "text_after_label label_colon_value (asc ''lucky-color-txt'') = asc ''red''"
  by (simp add: text_after_label_def label_colon_value_def bs_defs fixture_defs)

lemma text_after_label_absent:
  "find_tag (asc ''span'') (Some cls) parent = None \<Longrightarrow> text_after_label parent cls = []"
  by (simp add: text_after_label_def find_tag_def)

text \<open>
  C2 at a page where a line break stands between the label and the value: the string of
  the \<^verbatim>\<open>br\<close> tag is \<^verbatim>\<open>None\<close>, \<^verbatim>\<open>str\<close> makes it the text \<^verbatim>\<open>None\<close>, and that text is returned
  instead of the value \<^verbatim>\<open>red\<close> that follows.
\<close>

theorem text_after_label_line_break:
  "text_after_label label_break_value (asc ''lucky-color-txt'') = asc ''None''"
  by (simp add: text_after_label_def label_break_value_def bs_defs fixture_defs)

section \<open>Errors of the extractor\<close>

text \<open>
  C4 at a page that has both containers, twelve ranking items and no detail block:
  \<^verbatim>\<open>parse_zodiac\<close> raises \<^verbatim>\<open>KeyError\<close>.
\<close>

theorem parse_zodiac_no_blocks:
  "find_tag (asc ''ul'') (Some (asc ''rank-box'')) (page twelve_items []) =
     Some (el ''ul'' ''rank-box'' twelve_items) \<and>
   find_tag (asc ''div'') (Some (asc ''seiza-area'')) (page twelve_items []) =
     Some (el ''div'' ''seiza-area'' []) \<and>
   parse_zodiac (page twelve_items []) = Inl KeyError"
proof -
  have "detail_rows (el ''div'' ''seiza-area'' []) = []"
    by (simp add: detail_rows_def find_all_def find_all_located_def el_def)
  then show ?thesis
    by (simp add: twelve_page parse_zodiac_found [OF twelve_page] merge_left_def)
qed

section \<open>The message script: stars and translation\<close>

lemma py_repeat_char:
  "0 < n \<Longrightarrow> n \<le> maxsize \<Longrightarrow> nat n \<le> mem \<Longrightarrow>
   py_repeat maxsize mem [c] n = Inr (replicate (nat n) c)"
proof -
  have "concat (replicate k [x]) = replicate k x" for k :: nat and x :: nat
    by (induction k) simp_all
  then show "0 < n \<Longrightarrow> n \<le> maxsize \<Longrightarrow> nat n \<le> mem \<Longrightarrow> ?thesis"
    by (simp add: py_repeat_def)
qed

lemma stars_of_int:
  "py_int f n = Inr i \<Longrightarrow>
   stars f maxsize mem n = (if 0 < i then py_repeat maxsize mem [9733] i else Inr (asc ''-''))"
  by (simp add: stars_def)

text \<open>
  C9, as the code has it. \<^verbatim>\<open>stars\<close> maps 3 to three star characters and, in general, a
  positive integer \<open>n\<close> to \<open>n\<close> star characters as long as a string of that length can be
  built: for \<open>n\<close> above \<^verbatim>\<open>sys.maxsize\<close> the repetition raises \<^verbatim>\<open>OverflowError\<close>, and for \<open>n\<close>
  above what can be allocated it raises \<^verbatim>\<open>MemoryError\<close>. It maps 0, any negative number
  (integer or float) and any input on which \<^verbatim>\<open>int()\<close> raises (None, NaN, an infinity, a
  string that is not an integer literal) to \<^verbatim>\<open>"-"\<close>.
\<close>

theorem stars_format:
  "(3 \<le> maxsize \<and> 3 \<le> mem \<longrightarrow> stars f maxsize mem (PyInt 3) = Inr [9733, 9733, 9733]) \<and>
   (\<forall>n. 0 < n \<and> n \<le> maxsize \<and> nat n \<le> mem \<longrightarrow>
        stars f maxsize mem (PyInt n) = Inr (replicate (nat n) 9733)) \<and>
   (\<forall>n. 0 < n \<and> maxsize < n \<longrightarrow> stars f maxsize mem (PyInt n) = Inl OverflowError) \<and>
   (\<forall>n. 0 < n \<and> n \<le> maxsize \<and> mem < nat n \<longrightarrow>
        stars f maxsize mem (PyInt n) = Inl MemoryError) \<and>
   stars f maxsize mem (PyInt 0) = Inr (asc ''-'') \<and>
   (\<forall>n. n < 0 \<longrightarrow> stars f maxsize mem (PyInt n) = Inr (asc ''-'')) \<and>
   (\<forall>x. x \<le> 0 \<longrightarrow> stars f maxsize mem (PyFloat x) = Inr (asc ''-'')) \<and>
   (\<forall>v e. py_int f v = Inl e \<longrightarrow> stars f maxsize mem v = Inr (asc ''-''))"
proof (intro conjI allI impI)
  assume "3 \<le> maxsize \<and> 3 \<le> mem"
  then have "stars f maxsize mem (PyInt 3) = Inr (replicate (nat 3) 9733)"
    by (simp add: stars_of_int py_int_def py_repeat_char)
  then show "stars f maxsize mem (PyInt 3) = Inr [9733, 9733, 9733]"
    by (simp add: numeral_3_eq_3)
next
  fix n :: int
  assume "0 < n \<and> n \<le> maxsize \<and> nat n \<le> mem"
  then show "stars f maxsize mem (PyInt n) = Inr (replicate (nat n) 9733)"
    by (simp add: stars_of_int py_int_def py_repeat_char)
next
  fix n :: int
  assume "0 < n \<and> maxsize < n"
  then show "stars f maxsize mem (PyInt n) = Inl OverflowError"
    by (simp add: stars_of_int py_int_def py_repeat_def)
next
  fix n :: int
  assume "0 < n \<and> n \<le> maxsize \<and> mem < nat n"
  then show "stars f maxsize mem (PyInt n) = Inl MemoryError"
    by (simp add: stars_of_int py_int_def py_repeat_def)
next
  show "stars f maxsize mem (PyInt 0) = Inr (asc ''-'')"
    by (simp add: stars_of_int py_int_def)
next
  fix n :: int
  assume "n < 0"
  then show "stars f maxsize mem (PyInt n) = Inr (asc ''-'')"
    by (simp add: stars_of_int py_int_def)
next
  fix x :: real
  assume "x \<le> 0"
  then have "\<not> 0 < (if 0 \<le> x then \<lfloor>x\<rfloor> else \<lceil>x\<rceil>)"
    by (auto simp: not_less)
  then show "stars f maxsize mem (PyFloat x) = Inr (asc ''-'')"
    by (simp add: stars_def py_int_def)
next
  fix v e
  assume "py_int f v = Inl e"
  then show "stars f maxsize mem v = Inr (asc ''-'')"
    by (simp add: stars_def)
qed

text \<open>A 64-bit machine that can allocate strings of up to \<open>2 ^ 30\<close> characters.\<close>

theorem stars_format_witness:
  "stars (\<lambda>s. None) 9223372036854775807 1073741824 (PyInt 3) = Inr [9733, 9733, 9733] \<and>
   stars (\<lambda>s. None) 9223372036854775807 1073741824 (PyInt 5) = Inr [9733, 9733, 9733, 9733, 9733] \<and>
   stars (\<lambda>s. None) 9223372036854775807 1073741824 (PyInt 9223372036854775808) = Inl OverflowError \<and>
   stars (\<lambda>s. None) 9223372036854775807 1073741824 (PyInt 1073741825) = Inl MemoryError \<and>
   stars (\<lambda>s. None) 9223372036854775807 1073741824 (PyInt (-2)) = Inr [45] \<and>
   stars (\<lambda>s. None) 9223372036854775807 1073741824 (PyFloat (-5/2)) = Inr [45] \<and>
   py_int (\<lambda>s. None) PyNone = Inl TypeError \<and>
   stars (\<lambda>s. None) 9223372036854775807 1073741824 PyNone = Inr [45] \<and>
   py_int (\<lambda>s. None) PyNaN = Inl ValueError \<and>
   stars (\<lambda>s. None) 9223372036854775807 1073741824 PyNaN = Inr [45] \<and>
   py_int (\<lambda>s. None) (PyStr (asc ''abc'')) = Inl ValueError \<and>
   stars (\<lambda>s. None) 9223372036854775807 1073741824 (PyStr (asc ''abc'')) = Inr [45]"
proof -
  note s = stars_format [of 9223372036854775807 1073741824 "\<lambda>s. None"]
  have e: "py_int (\<lambda>s. None) PyNone = Inl TypeError" "py_int (\<lambda>s. None) PyNaN = Inl ValueError"
    "py_int (\<lambda>s. None) (PyStr (asc ''abc'')) = Inl ValueError"
    by (simp_all add: py_int_def)
  have m: "asc ''-'' = [45]" by (simp add: asc_def)
  have t: "stars (\<lambda>s. None) 9223372036854775807 1073741824 (PyInt 3) = Inr [9733, 9733, 9733]"
    using s by simp
  have "(0::int) < 5 \<and> (5::int) \<le> 9223372036854775807 \<and> nat 5 \<le> (1073741824::nat)"
    by simp
  with s have "stars (\<lambda>s. None) 9223372036854775807 1073741824 (PyInt 5) = Inr (replicate (nat 5) 9733)"
    by blast
  moreover have "replicate (nat 5) (9733::nat) = [9733, 9733, 9733, 9733, 9733]"
    by (simp add: eval_nat_numeral)
  ultimately have a: "stars (\<lambda>s. None) 9223372036854775807 1073741824 (PyInt 5) = Inr [9733, 9733, 9733, 9733, 9733]"
    by (simp only:)
  have "(0::int) < 9223372036854775808 \<and> (9223372036854775807::int) < 9223372036854775808"
    by simp
  with s have o: "stars (\<lambda>s. None) 9223372036854775807 1073741824 (PyInt 9223372036854775808) = Inl OverflowError"
    by blast
  have "(0::int) < 1073741825 \<and> (1073741825::int) \<le> 9223372036854775807 \<and> (1073741824::nat) < nat 1073741825"
    by simp
  with s have me: "stars (\<lambda>s. None) 9223372036854775807 1073741824 (PyInt 1073741825) = Inl MemoryError"
    by blast
  have "(-2::int) < 0" by simp
  with s m have b: "stars (\<lambda>s. None) 9223372036854775807 1073741824 (PyInt (-2)) = Inr [45]"
    by metis
  have "(-5/2::real) \<le> 0" by simp
  with s m have c: "stars (\<lambda>s. None) 9223372036854775807 1073741824 (PyFloat (-5/2)) = Inr [45]"
    by metis
  have d: "stars (\<lambda>s. None) 9223372036854775807 1073741824 PyNone = Inr [45]"
    "stars (\<lambda>s. None) 9223372036854775807 1073741824 PyNaN = Inr [45]"
    "stars (\<lambda>s. None) 9223372036854775807 1073741824 (PyStr (asc ''abc'')) = Inr [45]"
    using s e m by metis+
  from e t a o me b c d show ?thesis by simp
qed

text \<open>On a 64-bit machine the score \<open>2 ^ 63\<close> is a positive integer, and \<^verbatim>\<open>stars\<close> raises
  \<^verbatim>\<open>OverflowError\<close> instead of returning that many stars.\<close>

theorem stars_format_counterexample:
  "stars (\<lambda>s. None) 9223372036854775807 1073741824 (PyInt 9223372036854775808) = Inl OverflowError"
  by (simp add: stars_def py_int_def py_repeat_def)

text \<open>
  C7. When the translation call raises, \<^verbatim>\<open>translate_text\<close> returns the text it was given,
  unchanged; and whatever the translation call does, \<^verbatim>\<open>translate_text\<close> returns a value: no
  failure of the translation leaves it as an exception.
\<close>

theorem translate_text_failure:
  "(translate target s = Inl e \<longrightarrow> translate_text translate (PyStr s) target = Inr (PyStr s)) \<and>
   (\<exists>v. translate_text translate text target = Inr v)"
  by (auto simp: translate_text_def split: pyval.splits sum.splits)

theorem translate_text_failure_witness:
  "(\<lambda>t s. Inl LibraryError :: error + pyval) (asc ''korean'') jp_taurus = Inl LibraryError \<and>
   translate_text (\<lambda>t s. Inl LibraryError) (PyStr jp_taurus) (asc ''korean'') = Inr (PyStr jp_taurus)"
  using translate_text_failure [of "\<lambda>t s. Inl LibraryError" "asc ''korean''" jp_taurus LibraryError]
  by simp

end
